theory Spec2Isabelle
  imports Complex_Main "HOL-Library.AList" "HOL-Library.Word"
begin

section \<open>Errors\<close>

text \<open>
  Every exception the validation code can raise is a value. The payload is the text
  that \<^verbatim>\<open>str(e)\<close> would give.
\<close>

datatype error =
    KeyError string
  | ValueError string
  | TypeError string
  | AttributeError string
  | NameError string
  | ValidationError string
  | DatabaseError string

fun str_of :: "error \<Rightarrow> string" where
  "str_of (KeyError m) = m"
| "str_of (ValueError m) = m"
| "str_of (TypeError m) = m"
| "str_of (AttributeError m) = m"
| "str_of (NameError m) = m"
| "str_of (ValidationError m) = m"
| "str_of (DatabaseError m) = m"

definition bind_err :: "error + 'a \<Rightarrow> ('a \<Rightarrow> error + 'b) \<Rightarrow> error + 'b" where
  "bind_err m f = (case m of Inl e \<Rightarrow> Inl e | Inr x \<Rightarrow> f x)"

section \<open>Datasets\<close>

text \<open>
  A pandas Series with the default positional index is a typed list of cells. Four
  column kinds are modelled: \<^verbatim>\<open>float64\<close> (a cell is the real number the float
  stands for, \<open>None\<close> is NaN; the infinities are left out), \<^verbatim>\<open>int64\<close> (a
  64-bit word, read as a signed number), text (\<^verbatim>\<open>object\<close>, \<open>None\<close> is a
  missing value) and timestamp (\<^verbatim>\<open>datetime64[ns]\<close>, with the column's UTC
  offset in nanoseconds when it is timezone-aware; a cell is the stored instant in
  nanoseconds, \<open>None\<close> is NaT).
\<close>

datatype series =
    NumSeries "real option list"
  | IntSeries "64 word list"
  | ObjSeries "string option list"
  | TimeSeries "int option" "int option list"

datatype cell =
    Num real
  | NaN
  | IntCell int
  | Str string
  | NoneValue
  | Timestamp "int option" int
  | NaT

fun cells :: "series \<Rightarrow> cell list" where
  "cells (NumSeries xs) = map (\<lambda>x. case x of None \<Rightarrow> NaN | Some r \<Rightarrow> Num r) xs"
| "cells (IntSeries ws) = map (\<lambda>w. IntCell (sint w)) ws"
| "cells (ObjSeries xs) = map (\<lambda>x. case x of None \<Rightarrow> NoneValue | Some s \<Rightarrow> Str s) xs"
| "cells (TimeSeries tz xs) = map (\<lambda>x. case x of None \<Rightarrow> NaT | Some t \<Rightarrow> Timestamp tz t) xs"

text \<open>
  A DataFrame: its columns by name, in order, and its number of rows (the length of
  its index, which a frame keeps even when it has no column).
\<close>

record dataset =
  columns :: "(string \<times> series) list"
  n_rows :: nat

definition column_names :: "dataset \<Rightarrow> string list" where
  "column_names df = map fst (columns df)"

text \<open>
  \<^verbatim>\<open>df[column]\<close>: the column of that name, KeyError when there is none. The
  column names of a frame are taken to be distinct, as the data model has them: for a
  name that occurs twice pandas gives a frame and not a Series, which is not modelled.
\<close>

definition getitem :: "dataset \<Rightarrow> string \<Rightarrow> error + series" where
  "getitem df column =
     (case map_of (columns df) column of
        None \<Rightarrow> Inl (KeyError column)
      | Some s \<Rightarrow> Inr s)"

fun is_numeric_dtype :: "series \<Rightarrow> bool" where
  "is_numeric_dtype (NumSeries _) = True"
| "is_numeric_dtype (IntSeries _) = True"
| "is_numeric_dtype _ = False"

fun is_object_dtype :: "series \<Rightarrow> bool" where
  "is_object_dtype (ObjSeries _) = True"
| "is_object_dtype _ = False"

text \<open>
  An object column counts as a string column when every cell is a string; a missing
  value in it makes the test false. An empty object column passes.
\<close>

fun is_string_dtype :: "series \<Rightarrow> bool" where
  "is_string_dtype (ObjSeries xs) = (None \<notin> set xs)"
| "is_string_dtype _ = False"

fun is_datetime64_any_dtype :: "series \<Rightarrow> bool" where
  "is_datetime64_any_dtype (TimeSeries _ _) = True"
| "is_datetime64_any_dtype _ = False"

section \<open>Series operations\<close>

text \<open>
  Subtraction of two Series aligns them on the index: the result covers the longer
  index, and a row that one side lacks is missing (NaN, NaT), as is a row where either
  value is missing.
\<close>

fun sub_aligned :: "'a::minus option list \<Rightarrow> 'a option list \<Rightarrow> 'a option list" where
  "sub_aligned [] ys = map (\<lambda>_. None) ys"
| "sub_aligned (x # xs) [] = map (\<lambda>_. None) (x # xs)"
| "sub_aligned (x # xs) (y # ys) =
     (case (x, y) of (Some p, Some q) \<Rightarrow> Some (p - q) | _ \<Rightarrow> None) # sub_aligned xs ys"

text \<open>
  The result of a float64 operation is the exact result rounded to the nearest float,
  ties to the even significand. A float has a significand of 53 bits; \<open>2 ^ e\<close> is the
  power of two at or below the magnitude, and the last bit of the significand counts
  \<open>2 ^ (e - 52)\<close>, or \<open>2 ^ - 1074\<close> for the subnormal numbers. A result beyond the
  largest float is an infinity in pandas and a larger number here; both exceed every
  finite tolerance.
\<close>

definition pow2 :: "int \<Rightarrow> real" where
  "pow2 q = (if 0 \<le> q then 2 ^ nat q else 1 / 2 ^ nat (- q))"

function exponent_up :: "real \<Rightarrow> int \<Rightarrow> int" where
  "exponent_up x e = (if 2 \<le> x \<and> e < 1024 then exponent_up (x / 2) (e + 1) else e)"
  by pat_completeness auto
termination
  by (relation "measure (\<lambda>(x, e). nat (1024 - e))") auto

function exponent_down :: "real \<Rightarrow> int \<Rightarrow> int" where
  "exponent_down x e = (if x < 1 \<and> - 1022 < e then exponent_down (x * 2) (e - 1) else e)"
  by pat_completeness auto
termination
  by (relation "measure (\<lambda>(x, e). nat (e + 1022))") auto

definition float_exponent :: "real \<Rightarrow> int" where
  "float_exponent x = (if 1 \<le> x then exponent_up x 0 else exponent_down x 0)"

definition round_half_even :: "real \<Rightarrow> int" where
  "round_half_even y =
     (let f = \<lfloor>y\<rfloor>; r = y - of_int f
      in if r < 1 / 2 then f else if 1 / 2 < r then f + 1 else if even f then f else f + 1)"

definition round64 :: "real \<Rightarrow> real" where
  "round64 x =
     (let q = max (float_exponent \<bar>x\<bar> - 52) (- 1074)
      in of_int (round_half_even (x / pow2 q)) * pow2 q)"

text \<open>float64 subtraction, aligned on the index.\<close>

definition float_sub :: "real option list \<Rightarrow> real option list \<Rightarrow> real option list" where
  "float_sub xs ys = map (map_option round64) (sub_aligned xs ys)"

text \<open>An int64 column converted to float64: each number rounded to the nearest float.\<close>

definition int64_as_float :: "64 word list \<Rightarrow> real option list" where
  "int64_as_float ws = map (\<lambda>w. Some (round64 (of_int (sint w)))) ws"

text \<open>
  The difference of two numeric columns. Two int64 columns with the same index are
  subtracted as 64-bit integers, which wrap around. In every other case the result is
  float64: an int64 column is converted first, also when the two indexes differ,
  because the alignment fills the missing rows with NaN. A number minus a text or a
  timestamp is a TypeError.
\<close>

datatype numeric_values = Int64Values "64 word list" | Float64Values "real option list"

fun series_sub :: "series \<Rightarrow> series \<Rightarrow> error + numeric_values" where
  "series_sub (IntSeries xs) (IntSeries ys) =
     (if length xs = length ys
      then Inr (Int64Values (map2 (-) xs ys))
      else Inr (Float64Values (float_sub (int64_as_float xs) (int64_as_float ys))))"
| "series_sub (IntSeries xs) (NumSeries ys) =
     Inr (Float64Values (float_sub (int64_as_float xs) ys))"
| "series_sub (NumSeries xs) (IntSeries ys) =
     Inr (Float64Values (float_sub xs (int64_as_float ys)))"
| "series_sub (NumSeries xs) (NumSeries ys) = Inr (Float64Values (float_sub xs ys))"
| "series_sub _ _ = Inl (TypeError ''unsupported operand type(s) for -'')"

text \<open>
  \<^verbatim>\<open>.abs()\<close>: exact on floats; on int64 the negation wraps around, so the least
  value is its own absolute value.
\<close>

definition abs64 :: "64 word \<Rightarrow> 64 word" where
  "abs64 w = (if sint w < 0 then - w else w)"

fun numeric_abs :: "numeric_values \<Rightarrow> numeric_values" where
  "numeric_abs (Int64Values ws) = Int64Values (map abs64 ws)"
| "numeric_abs (Float64Values xs) = Float64Values (map (map_option abs) xs)"

text \<open>
  \<^verbatim>\<open>diff > tolerance\<close>, the tolerance being a float as the constructor declares
  it: an int64 difference is converted to float64 for the comparison; a comparison
  with NaN is false.
\<close>

fun numeric_gt :: "numeric_values \<Rightarrow> real \<Rightarrow> bool list" where
  "numeric_gt (Int64Values ws) t = map (\<lambda>w. round64 (of_int (sint w)) > t) ws"
| "numeric_gt (Float64Values xs) t =
     map (\<lambda>x. case x of None \<Rightarrow> False | Some r \<Rightarrow> r > t) xs"

definition series_abs :: "'a::abs option list \<Rightarrow> 'a option list" where
  "series_abs d = map (map_option abs) d"

text \<open>A comparison with NaN or NaT is false.\<close>

definition series_gt :: "'a::ord option list \<Rightarrow> 'a \<Rightarrow> bool list" where
  "series_gt d t = map (\<lambda>x. case x of None \<Rightarrow> False | Some r \<Rightarrow> r > t) d"

definition mask_any :: "bool list \<Rightarrow> bool" where
  "mask_any msk = (True \<in> set msk)"

definition mask_sum :: "bool list \<Rightarrow> nat" where
  "mask_sum msk = length (filter id msk)"

text \<open>The index labels of the rows where the mask holds.\<close>

definition mask_index :: "bool list \<Rightarrow> nat list" where
  "mask_index msk = filter (\<lambda>i. msk ! i) [0..<length msk]"

text \<open>
  \<^verbatim>\<open>df.loc[mask, column].to_dict()\<close>: the mask is brought to the column's index,
  and the rows where it holds are returned, keyed by row label.
\<close>

definition loc_to_dict :: "bool list \<Rightarrow> series \<Rightarrow> (nat \<times> cell) list" where
  "loc_to_dict msk col =
     filter (\<lambda>(i, c). i < length msk \<and> msk ! i) (enumerate 0 (cells col))"

section \<open>Outcomes\<close>

datatype status = Pass | Fail

datatype stat_diff = StatDiff (stat_expected: "real option") (stat_actual: "real option")
  (difference_pct: "real option")

text \<open>
  The difference detail of one key: the value lists of Numeric and Categorical, the
  counts of Null, the flagged statistics of Distribution, the counts and values of
  Pattern, and, under a Composite, the whole differences of a sub-strategy.
\<close>

datatype detail =
    ValueDiff (expected_values: "(nat \<times> cell) list") (actual_values: "(nat \<times> cell) list")
  | NullDiff nat nat nat "nat list"
  | StatDiffs "(string \<times> stat_diff) list"
  | PatternDiff nat "(nat \<times> cell) list"
  | Nested "(string \<times> detail) list"

type_synonym differences = "(string \<times> detail) list"

record outcome =
  status :: status
  differences :: differences

text \<open>
  Each strategy loops over the expected frame's column names with a dictionary of
  differences; a column either adds its entry (\<^verbatim>\<open>differences[column] = ...\<close>),
  leaves the dictionary alone, or raises.
\<close>

fun for_columns ::
  "(string \<Rightarrow> error + detail option) \<Rightarrow> string list \<Rightarrow> differences \<Rightarrow> error + differences" where
  "for_columns f [] found = Inr found"
| "for_columns f (column # rest) found =
     (case f column of
        Inl e \<Rightarrow> Inl e
      | Inr None \<Rightarrow> for_columns f rest found
      | Inr (Some d) \<Rightarrow> for_columns f rest (AList.update column d found))"

text \<open>\<^verbatim>\<open>{'status': 'fail' if differences else 'pass', 'differences': differences}\<close>\<close>

definition make_outcome :: "differences \<Rightarrow> outcome" where
  "make_outcome found = \<lparr>status = (if found \<noteq> [] then Fail else Pass), differences = found\<rparr>"

section \<open>NumericValidation\<close>

definition numeric_column :: "real \<Rightarrow> dataset \<Rightarrow> dataset \<Rightarrow> string \<Rightarrow> error + detail option" where
  "numeric_column tolerance expected_data actual_data column =
     bind_err (getitem expected_data column) (\<lambda>ecol.
       if is_numeric_dtype ecol then
         bind_err (getitem actual_data column) (\<lambda>acol.
         bind_err (series_sub ecol acol) (\<lambda>d.
           let diff = numeric_abs d;
               msk = numeric_gt diff tolerance
           in if mask_any msk
              then Inr (Some (ValueDiff (loc_to_dict msk ecol) (loc_to_dict msk acol)))
              else Inr None))
       else Inr None)"

definition numeric_validate :: "real \<Rightarrow> dataset \<Rightarrow> dataset \<Rightarrow> error + outcome" where
  "numeric_validate tolerance expected_data actual_data =
     bind_err
       (for_columns (numeric_column tolerance expected_data actual_data)
          (column_names expected_data) [])
       (\<lambda>found. Inr (make_outcome found))"

section \<open>CategoricalValidation\<close>

fun is_null :: "cell \<Rightarrow> bool" where
  "is_null NaN = True"
| "is_null NoneValue = True"
| "is_null NaT = True"
| "is_null _ = False"

text \<open>
  \<^verbatim>\<open>!=\<close> on an object column compares cell by cell; a missing value on either
  side is unequal to everything, itself included. Two Series of different length are
  not identically labelled, and comparing them raises.
\<close>

definition cell_ne :: "cell \<Rightarrow> cell \<Rightarrow> bool" where
  "cell_ne x y = (is_null x \<or> is_null y \<or> x \<noteq> y)"

definition series_ne :: "series \<Rightarrow> series \<Rightarrow> error + bool list" where
  "series_ne s t =
     (if length (cells s) \<noteq> length (cells t)
      then Inl (ValueError ''Can only compare identically-labeled Series objects'')
      else Inr (map2 cell_ne (cells s) (cells t)))"

definition categorical_column :: "dataset \<Rightarrow> dataset \<Rightarrow> string \<Rightarrow> error + detail option" where
  "categorical_column expected_data actual_data column =
     bind_err (getitem expected_data column) (\<lambda>ecol.
       if is_object_dtype ecol then
         bind_err (getitem actual_data column) (\<lambda>acol.
         bind_err (series_ne ecol acol) (\<lambda>msk.
           if mask_any msk
           then Inr (Some (ValueDiff (loc_to_dict msk ecol) (loc_to_dict msk acol)))
           else Inr None))
       else Inr None)"

definition categorical_validate :: "dataset \<Rightarrow> dataset \<Rightarrow> error + outcome" where
  "categorical_validate expected_data actual_data =
     bind_err
       (for_columns (categorical_column expected_data actual_data)
          (column_names expected_data) [])
       (\<lambda>found. Inr (make_outcome found))"

section \<open>DateTimeValidation\<close>

text \<open>
  The constructor turns the configured seconds into a duration; durations and instants
  are counted in nanoseconds.
\<close>

definition timedelta_seconds :: "int \<Rightarrow> int" where
  "timedelta_seconds secs = secs * 1000000000"

text \<open>
  \<^verbatim>\<open>tz_localize(None)\<close> drops the timezone and keeps the local wall-clock time:
  the instant shifted by the column's UTC offset. A naive column is left as it is.
\<close>

definition tz_localize_none :: "int option \<Rightarrow> int option list \<Rightarrow> int option list" where
  "tz_localize_none tz xs =
     (case tz of None \<Rightarrow> xs | Some off \<Rightarrow> map (map_option (\<lambda>t. t + off)) xs)"

text \<open>
  \<^verbatim>\<open>pd.DatetimeIndex(col).tz_localize(None)\<close> of a timestamp column. An int64
  column is read as nanoseconds since the epoch, its least value as NaT. The
  conversion that pandas attempts on a text or a float column (parsing the strings) is
  not modelled: it is a TypeError here.
\<close>

fun naive_index :: "series \<Rightarrow> error + int option list" where
  "naive_index (TimeSeries tz xs) = Inr (tz_localize_none tz xs)"
| "naive_index (IntSeries ws) =
     Inr (map (\<lambda>w. if sint w = - (2 ^ 63) then None else Some (sint w)) ws)"
| "naive_index _ = Inl (TypeError ''not a datetime column'')"

text \<open>Two indexes are subtracted position by position and must be equally long.\<close>

definition index_sub :: "int option list \<Rightarrow> int option list \<Rightarrow> error + int option list" where
  "index_sub xs ys =
     (if length xs \<noteq> length ys
      then Inl (ValueError ''cannot add indices of unequal length'')
      else Inr (sub_aligned xs ys))"

text \<open>
  Two timestamp Series are subtracted as instants, aligned on the index; a naive and
  an aware column cannot be subtracted.
\<close>

fun timeseries_sub :: "series \<Rightarrow> series \<Rightarrow> error + int option list" where
  "timeseries_sub (TimeSeries tz1 xs) (TimeSeries tz2 ys) =
     (if (tz1 = None) = (tz2 = None)
      then Inr (sub_aligned xs ys)
      else Inl (TypeError ''Cannot subtract tz-naive and tz-aware datetime-like objects''))"
| "timeseries_sub _ _ = Inl (TypeError ''unsupported operand type(s) for -'')"

text \<open>The mask of one timestamp column (lines 65 to 74 of the strategies module).\<close>

definition datetime_mask :: "bool \<Rightarrow> int \<Rightarrow> series \<Rightarrow> series \<Rightarrow> error + bool list" where
  "datetime_mask timezone_aware allowed_difference ecol acol =
     bind_err
       (if \<not> timezone_aware
        then bind_err (naive_index ecol) (\<lambda>expected_col.
             bind_err (naive_index acol) (\<lambda>actual_col.
               index_sub expected_col actual_col))
        else timeseries_sub ecol acol)
       (\<lambda>d. let time_diff = series_abs d
            in Inr (series_gt time_diff allowed_difference))"

text \<open>
  When some row mismatches, the detail is built from three entries, in order. The
  third is \<^verbatim>\<open>time_diff[mask].total_seconds().to_dict()\<close>: with
  \<^verbatim>\<open>timezone_aware\<close> the difference is a Series, which has no method
  \<^verbatim>\<open>total_seconds\<close> (it lives under the \<^verbatim>\<open>.dt\<close> accessor); without,
  it is a TimedeltaIndex, whose \<^verbatim>\<open>total_seconds()\<close> is an Index, which has no
  method \<^verbatim>\<open>to_dict\<close>. Either way the lookup raises AttributeError and no
  detail is stored.
\<close>

definition difference_seconds_to_dict :: "bool \<Rightarrow> error" where
  "difference_seconds_to_dict timezone_aware =
     (if timezone_aware
      then AttributeError ''Series object has no attribute total_seconds''
      else AttributeError ''Index object has no attribute to_dict'')"

definition datetime_column ::
  "bool \<Rightarrow> int \<Rightarrow> dataset \<Rightarrow> dataset \<Rightarrow> string \<Rightarrow> error + detail option" where
  "datetime_column timezone_aware allowed_difference expected_data actual_data column =
     bind_err (getitem expected_data column) (\<lambda>ecol.
       if is_datetime64_any_dtype ecol then
         bind_err (getitem actual_data column) (\<lambda>acol.
         bind_err (datetime_mask timezone_aware allowed_difference ecol acol) (\<lambda>msk.
           if mask_any msk
           then Inl (difference_seconds_to_dict timezone_aware)
           else Inr None))
       else Inr None)"

definition datetime_validate :: "bool \<Rightarrow> int \<Rightarrow> dataset \<Rightarrow> dataset \<Rightarrow> error + outcome" where
  "datetime_validate timezone_aware allowed_difference expected_data actual_data =
     bind_err
       (for_columns (datetime_column timezone_aware allowed_difference expected_data actual_data)
          (column_names expected_data) [])
       (\<lambda>found. Inr (make_outcome found))"

section \<open>NullValidation\<close>

definition isna :: "series \<Rightarrow> bool list" where
  "isna s = map is_null (cells s)"

text \<open>\<^verbatim>\<open>col == 'text'\<close>: true exactly at the cells that hold that string.\<close>

definition series_eq_str :: "series \<Rightarrow> string \<Rightarrow> bool list" where
  "series_eq_str s v = map (\<lambda>c. c = Str v) (cells s)"

definition mask_or :: "bool list \<Rightarrow> bool list \<Rightarrow> bool list" where
  "mask_or xs ys = map2 (\<or>) xs ys"

text \<open>
  \<^verbatim>\<open>isna()\<close> gives a new Series, so the in-place \<^verbatim>\<open>|=\<close> that follows
  changes that Series and not the input column.
\<close>

definition null_like :: "bool \<Rightarrow> series \<Rightarrow> bool list" where
  "null_like treat_empty_as_null col =
     (let nulls = isna col
      in if treat_empty_as_null
         then mask_or nulls (mask_or (series_eq_str col []) (series_eq_str col ''null/empty''))
         else nulls)"

definition mask_ne :: "bool list \<Rightarrow> bool list \<Rightarrow> error + bool list" where
  "mask_ne xs ys =
     (if length xs \<noteq> length ys
      then Inl (ValueError ''Can only compare identically-labeled Series objects'')
      else Inr (map2 (\<noteq>) xs ys))"

definition null_column :: "bool \<Rightarrow> dataset \<Rightarrow> dataset \<Rightarrow> string \<Rightarrow> error + detail option" where
  "null_column treat_empty_as_null expected_data actual_data column =
     bind_err (getitem expected_data column) (\<lambda>ecol.
       let expected_nulls = null_like treat_empty_as_null ecol in
       bind_err (getitem actual_data column) (\<lambda>acol.
       let actual_nulls = null_like treat_empty_as_null acol in
       bind_err (mask_ne expected_nulls actual_nulls) (\<lambda>msk.
         if mask_any msk
         then Inr (Some (NullDiff (mask_sum msk) (mask_sum expected_nulls)
                           (mask_sum actual_nulls) (mask_index msk)))
         else Inr None)))"

definition null_validate :: "bool \<Rightarrow> dataset \<Rightarrow> dataset \<Rightarrow> error + outcome" where
  "null_validate treat_empty_as_null expected_data actual_data =
     bind_err
       (for_columns (null_column treat_empty_as_null expected_data actual_data)
          (column_names expected_data) [])
       (\<lambda>found. Inr (make_outcome found))"

section \<open>DistributionValidation\<close>

text \<open>
  The floating-point operations of the statistics loop, lifted to NaN: an operation
  on NaN is NaN, and a comparison with NaN is false (so \<^verbatim>\<open>NaN != 0\<close> is true).
  The statistics and the percentage are computed exactly here: the rounding of each
  floating-point operation is left out in this strategy.
\<close>

definition fsub :: "real option \<Rightarrow> real option \<Rightarrow> real option" where
  "fsub x y = (case (x, y) of (Some p, Some q) \<Rightarrow> Some (p - q) | _ \<Rightarrow> None)"

definition fabs :: "real option \<Rightarrow> real option" where
  "fabs x = map_option abs x"

definition fdiv :: "real option \<Rightarrow> real option \<Rightarrow> real option" where
  "fdiv x y = (case (x, y) of (Some p, Some q) \<Rightarrow> Some (p / q) | _ \<Rightarrow> None)"

definition fmul :: "real option \<Rightarrow> real option \<Rightarrow> real option" where
  "fmul x y = (case (x, y) of (Some p, Some q) \<Rightarrow> Some (p * q) | _ \<Rightarrow> None)"

definition fgt :: "real option \<Rightarrow> real \<Rightarrow> bool" where
  "fgt x t = (case x of None \<Rightarrow> False | Some r \<Rightarrow> r > t)"

text \<open>
  The statistics of a numeric column skip NaN. An empty selection has no mean, median,
  minimum or maximum (NaN), and the sample standard deviation needs two values.
\<close>

definition dropna :: "real option list \<Rightarrow> real list" where
  "dropna xs = List.map_filter id xs"

definition series_mean :: "real option list \<Rightarrow> real option" where
  "series_mean xs =
     (let v = dropna xs
      in if v = [] then None else Some (sum_list v / real (length v)))"

definition series_median :: "real option list \<Rightarrow> real option" where
  "series_median xs =
     (let v = sort (dropna xs); n = length v
      in if n = 0 then None
         else if odd n then Some (v ! (n div 2))
         else Some ((v ! (n div 2 - 1) + v ! (n div 2)) / 2))"

definition series_std :: "real option list \<Rightarrow> real option" where
  "series_std xs =
     (let v = dropna xs; n = length v
      in if n < 2 then None
         else let m = sum_list v / real n
              in Some (sqrt (sum_list (map (\<lambda>x. (x - m)\<^sup>2) v) / real (n - 1))))"

definition series_min :: "real option list \<Rightarrow> real option" where
  "series_min xs = (case dropna xs of [] \<Rightarrow> None | x # rest \<Rightarrow> Some (fold min rest x))"

definition series_max :: "real option list \<Rightarrow> real option" where
  "series_max xs = (case dropna xs of [] \<Rightarrow> None | x # rest \<Rightarrow> Some (fold max rest x))"

text \<open>
  The dictionary of the five statistics, in the order the source writes them. The
  statistics of a text column, or their comparison with a timestamp, are a TypeError.
\<close>

definition describe :: "real option list \<Rightarrow> (string \<times> real option) list" where
  "describe xs =
     [(''mean'', series_mean xs), (''median'', series_median xs), (''std'', series_std xs),
      (''min'', series_min xs), (''max'', series_max xs)]"

fun column_stats :: "series \<Rightarrow> error + (string \<times> real option) list" where
  "column_stats (NumSeries xs) = Inr (describe xs)"
| "column_stats (IntSeries ws) = Inr (describe (map (\<lambda>w. Some (of_int (sint w))) ws))"
| "column_stats _ = Inl (TypeError ''could not compute the statistic'')"

text \<open>Lines 149 to 156: the test of one statistic.\<close>

definition stat_entry :: "real \<Rightarrow> real option \<Rightarrow> real option \<Rightarrow> stat_diff option" where
  "stat_entry threshold_pct expected_value actual_value =
     (if expected_value \<noteq> Some 0 then
        let pct_diff = fmul (fdiv (fabs (fsub expected_value actual_value)) expected_value) (Some 100)
        in if fgt pct_diff threshold_pct
           then Some (StatDiff expected_value actual_value pct_diff)
           else None
      else None)"

fun stat_loop ::
  "real \<Rightarrow> (string \<times> real option) list \<Rightarrow> (string \<times> real option) list \<Rightarrow>
   (string \<times> stat_diff) list \<Rightarrow> error + (string \<times> stat_diff) list" where
  "stat_loop threshold_pct [] actual_stats stat_differences = Inr stat_differences"
| "stat_loop threshold_pct ((stat, expected_value) # rest) actual_stats stat_differences =
     (case map_of actual_stats stat of
        None \<Rightarrow> Inl (KeyError stat)
      | Some actual_value \<Rightarrow>
          (case stat_entry threshold_pct expected_value actual_value of
             None \<Rightarrow> stat_loop threshold_pct rest actual_stats stat_differences
           | Some d \<Rightarrow>
               stat_loop threshold_pct rest actual_stats (AList.update stat d stat_differences)))"

definition distribution_column ::
  "real \<Rightarrow> dataset \<Rightarrow> dataset \<Rightarrow> string \<Rightarrow> error + detail option" where
  "distribution_column threshold_pct expected_data actual_data column =
     bind_err (getitem expected_data column) (\<lambda>ecol.
       if is_numeric_dtype ecol then
         bind_err (column_stats ecol) (\<lambda>expected_stats.
         bind_err (getitem actual_data column) (\<lambda>acol.
         bind_err (column_stats acol) (\<lambda>actual_stats.
         bind_err (stat_loop threshold_pct expected_stats actual_stats []) (\<lambda>stat_differences.
           if stat_differences \<noteq> []
           then Inr (Some (StatDiffs stat_differences))
           else Inr None))))
       else Inr None)"

definition distribution_validate :: "real \<Rightarrow> dataset \<Rightarrow> dataset \<Rightarrow> error + outcome" where
  "distribution_validate threshold_pct expected_data actual_data =
     bind_err
       (for_columns (distribution_column threshold_pct expected_data actual_data)
          (column_names expected_data) [])
       (\<lambda>found. Inr (make_outcome found))"

section \<open>PatternValidation\<close>

text \<open>
  A compiled regular expression is the predicate \<^verbatim>\<open>str.match\<close> decides with
  it: whether a string matches at its start.
\<close>

type_synonym pattern = "string \<Rightarrow> bool"

text \<open>
  The names bound at the top level of the strategies module: what lines 1 to 3
  import, and the classes it defines. None of the other names the module uses is a
  Python builtin.
\<close>

definition strategies_globals :: "string list" where
  "strategies_globals =
     [''ABC'', ''abstractmethod'', ''pd'', ''Dict'', ''Any'', ''ValidationStrategy'',
      ''NumericValidation'', ''CategoricalValidation'', ''DateTimeValidation'',
      ''NullValidation'', ''DistributionValidation'', ''PatternValidation'',
      ''CompositeValidation'']"

text \<open>Evaluating a global name that nothing binds raises NameError.\<close>

definition lookup_global :: "string list \<Rightarrow> string \<Rightarrow> error + unit" where
  "lookup_global globals name =
     (if name \<in> set globals then Inr ()
      else Inl (NameError (''name '' @ name @ '' is not defined'')))"

text \<open>
  \<^verbatim>\<open>{k: re.compile(v) for k, v in patterns.items()}\<close>: each entry evaluates the
  name \<^verbatim>\<open>re\<close> before it can call \<^verbatim>\<open>compile\<close>, which is a parameter here.
\<close>

fun compile_patterns ::
  "(string \<Rightarrow> error + pattern) \<Rightarrow> (string \<times> string) list \<Rightarrow> error + (string \<times> pattern) list" where
  "compile_patterns re_compile [] = Inr []"
| "compile_patterns re_compile ((k, v) # rest) =
     bind_err (lookup_global strategies_globals ''re'') (\<lambda>_.
     bind_err (re_compile v) (\<lambda>p.
     bind_err (compile_patterns re_compile rest) (\<lambda>ps.
       Inr ((k, p) # ps))))"

text \<open>\<^verbatim>\<open>col.str.match(p).fillna(False)\<close>; only a text column has \<^verbatim>\<open>.str\<close>.\<close>

fun str_match :: "pattern \<Rightarrow> series \<Rightarrow> error + bool list" where
  "str_match p (ObjSeries xs) = Inr (map (\<lambda>x. case x of None \<Rightarrow> False | Some s \<Rightarrow> p s) xs)"
| "str_match p _ = Inl (AttributeError ''Can only use .str accessor with string values'')"

definition pattern_column ::
  "(string \<times> pattern) list \<Rightarrow> dataset \<Rightarrow> dataset \<Rightarrow> string \<Rightarrow> error + detail option" where
  "pattern_column patterns expected_data actual_data column =
     bind_err (getitem expected_data column) (\<lambda>ecol.
       if is_string_dtype ecol then
         (case map_of patterns column of
            None \<Rightarrow> Inr None
          | Some column_pattern \<Rightarrow>
              bind_err (str_match column_pattern ecol) (\<lambda>expected_matches.
              bind_err (getitem actual_data column) (\<lambda>acol.
              bind_err (str_match column_pattern acol) (\<lambda>actual_matches.
              bind_err (mask_ne expected_matches actual_matches) (\<lambda>msk.
                if mask_any msk
                then Inr (Some (PatternDiff (mask_sum msk)
                                  (loc_to_dict (map Not actual_matches) acol)))
                else Inr None)))))
       else Inr None)"

definition pattern_validate ::
  "(string \<times> pattern) list \<Rightarrow> dataset \<Rightarrow> dataset \<Rightarrow> error + outcome" where
  "pattern_validate patterns expected_data actual_data =
     bind_err
       (for_columns (pattern_column patterns expected_data actual_data)
          (column_names expected_data) [])
       (\<lambda>found. Inr (make_outcome found))"

section \<open>The strategy family and CompositeValidation\<close>

text \<open>An instance of a strategy class: the class and the fields its constructor set.\<close>

datatype strategy =
    NumericValidation real
  | CategoricalValidation
  | DateTimeValidation bool int
  | NullValidation bool
  | DistributionValidation real
  | PatternValidation "(string \<times> pattern) list"
  | CompositeValidation "strategy list"

text \<open>
  A Timedelta is a signed 64-bit count of nanoseconds (the least value is kept for
  NaT); \<^verbatim>\<open>pd.Timedelta(seconds=...)\<close> raises when the seconds do not fit.
\<close>

definition DateTimeValidation_init :: "bool \<Rightarrow> int \<Rightarrow> error + strategy" where
  "DateTimeValidation_init timezone_aware allow_time_difference_seconds =
     (let allowed_difference = timedelta_seconds allow_time_difference_seconds
      in if - (2 ^ 63) < allowed_difference \<and> allowed_difference < 2 ^ 63
         then Inr (DateTimeValidation timezone_aware allowed_difference)
         else Inl (ValueError ''Cannot cast to Timedelta without overflow''))"

definition PatternValidation_init ::
  "(string \<Rightarrow> error + pattern) \<Rightarrow> (string \<times> string) list \<Rightarrow> error + strategy" where
  "PatternValidation_init re_compile patterns =
     bind_err (compile_patterns re_compile patterns) (\<lambda>ps. Inr (PatternValidation ps))"

text \<open>\<^verbatim>\<open>strategy.__class__.__name__\<close>\<close>

fun class_name :: "strategy \<Rightarrow> string" where
  "class_name (NumericValidation _) = ''NumericValidation''"
| "class_name CategoricalValidation = ''CategoricalValidation''"
| "class_name (DateTimeValidation _ _) = ''DateTimeValidation''"
| "class_name (NullValidation _) = ''NullValidation''"
| "class_name (DistributionValidation _) = ''DistributionValidation''"
| "class_name (PatternValidation _) = ''PatternValidation''"
| "class_name (CompositeValidation _) = ''CompositeValidation''"

text \<open>
  \<open>validate\<close> dispatches on the class. The loop of the composite carries
  \<^verbatim>\<open>all_differences\<close> and \<^verbatim>\<open>overall_status\<close>; a sub-strategy that raises
  ends it.
\<close>

fun validate :: "strategy \<Rightarrow> dataset \<Rightarrow> dataset \<Rightarrow> error + outcome"
  and composite_loop ::
    "strategy list \<Rightarrow> dataset \<Rightarrow> dataset \<Rightarrow> differences \<times> status \<Rightarrow> error + differences \<times> status"
  where
  "validate (NumericValidation tolerance) e a = numeric_validate tolerance e a"
| "validate CategoricalValidation e a = categorical_validate e a"
| "validate (DateTimeValidation timezone_aware allowed_difference) e a =
     datetime_validate timezone_aware allowed_difference e a"
| "validate (NullValidation treat_empty_as_null) e a = null_validate treat_empty_as_null e a"
| "validate (DistributionValidation threshold_pct) e a = distribution_validate threshold_pct e a"
| "validate (PatternValidation patterns) e a = pattern_validate patterns e a"
| "validate (CompositeValidation strategies) e a =
     (case composite_loop strategies e a ([], Pass) of
        Inl err \<Rightarrow> Inl err
      | Inr (all_differences, overall_status) \<Rightarrow>
          Inr \<lparr>status = overall_status, differences = all_differences\<rparr>)"
| "composite_loop [] e a st = Inr st"
| "composite_loop (strategy # rest) e a (all_differences, overall_status) =
     (case validate strategy e a of
        Inl err \<Rightarrow> Inl err
      | Inr result \<Rightarrow>
          if status result = Fail
          then composite_loop rest e a
                 (AList.update (class_name strategy) (Nested (differences result)) all_differences,
                  Fail)
          else composite_loop rest e a (all_differences, overall_status))"

section \<open>The orchestrator\<close>

text \<open>
  \<^verbatim>\<open>a.intersection(b)\<close> of two column indexes: the names of \<open>a\<close> that \<open>b\<close> has,
  each once, in the order of \<open>a\<close>.
\<close>

fun unique :: "string list \<Rightarrow> string list" where
  "unique [] = []"
| "unique (x # xs) = x # filter (\<lambda>y. y \<noteq> x) (unique xs)"

definition intersection :: "string list \<Rightarrow> string list \<Rightarrow> string list" where
  "intersection xs ys = unique (filter (\<lambda>x. x \<in> set ys) xs)"

text \<open>\<^verbatim>\<open>df[names]\<close>: the frame of those columns, with the same index.\<close>

fun select_series :: "dataset \<Rightarrow> string list \<Rightarrow> error + (string \<times> series) list" where
  "select_series df [] = Inr []"
| "select_series df (c # cs) =
     bind_err (getitem df c) (\<lambda>s.
     bind_err (select_series df cs) (\<lambda>rest. Inr ((c, s) # rest)))"

definition select_columns :: "dataset \<Rightarrow> string list \<Rightarrow> error + dataset" where
  "select_columns df names =
     bind_err (select_series df names) (\<lambda>cols. Inr (df\<lparr>columns := cols\<rparr>))"

record summary =
  summary_status :: status
  details :: differences
  source_rows :: nat
  target_rows :: nat

text \<open>
  The names bound at the top level of the validator module: its four import lines and
  its class.
\<close>

definition validator_globals :: "string list" where
  "validator_globals =
     [''Dict'', ''Any'', ''List'', ''pd'', ''DatabaseConnector'', ''ValidationStrategy'',
      ''DataValidator'']"

text \<open>
  \<^verbatim>\<open>raise ValidationError(f"Validation failed: {str(e)}")\<close>: the name of the class
  is evaluated first.
\<close>

definition raise_ValidationError :: "error \<Rightarrow> error" where
  "raise_ValidationError e =
     (case lookup_global validator_globals ''ValidationError'' of
        Inl name_error \<Rightarrow> name_error
      | Inr _ \<Rightarrow> ValidationError (''Validation failed: '' @ str_of e))"

text \<open>
  The body of the \<^verbatim>\<open>try\<close>. The two arguments are what the two
  \<^verbatim>\<open>execute_query\<close> calls gave: a frame, or the exception the connector raised.
\<close>

definition validate_query_body ::
  "strategy \<Rightarrow> error + dataset \<Rightarrow> error + dataset \<Rightarrow> error + summary" where
  "validate_query_body validation_strategy source_result target_result =
     bind_err source_result (\<lambda>source_data0.
     bind_err target_result (\<lambda>target_data0.
       let common_columns = intersection (column_names source_data0) (column_names target_data0)
       in bind_err (select_columns source_data0 common_columns) (\<lambda>source_data.
          bind_err (select_columns target_data0 common_columns) (\<lambda>target_data.
          bind_err (validate validation_strategy source_data target_data) (\<lambda>result.
            Inr \<lparr>summary_status = status result,
                 details = (if status result = Fail then differences result else []),
                 source_rows = n_rows source_data,
                 target_rows = n_rows target_data\<rparr>)))))"

definition validate_query ::
  "strategy \<Rightarrow> error + dataset \<Rightarrow> error + dataset \<Rightarrow> error + summary" where
  "validate_query validation_strategy source_result target_result =
     (case validate_query_body validation_strategy source_result target_result of
        Inl e \<Rightarrow> Inl (raise_ValidationError e)
      | Inr s \<Rightarrow> Inr s)"

section \<open>Notions used in the statements\<close>

text \<open>The rows that an outcome reports for a column, on either side of a value detail.\<close>

definition reported_rows :: "outcome \<Rightarrow> string \<Rightarrow> nat set" where
  "reported_rows out column =
     (case map_of (differences out) column of
        Some (ValueDiff ex ac) \<Rightarrow> fst ` set ex \<union> fst ` set ac
      | _ \<Rightarrow> {})"

text \<open>Scenarios A and B: one numeric column, two rows.\<close>

definition scenario_expected :: dataset where
  "scenario_expected = \<lparr>columns = [(''amt'', NumSeries [Some 10, Some 20])], n_rows = 2\<rparr>"

definition scenario_actual :: dataset where
  "scenario_actual = \<lparr>columns = [(''amt'', NumSeries [Some 10, Some 20.0005])], n_rows = 2\<rparr>"

text \<open>A sub-strategy reports fail on the two frames.\<close>

definition sub_fails :: "strategy \<Rightarrow> dataset \<Rightarrow> dataset \<Rightarrow> bool" where
  "sub_fails s e a = (case validate s e a of Inl _ \<Rightarrow> False | Inr r \<Rightarrow> status r = Fail)"

text \<open>Two instances are of the same variant: they have the same class.\<close>

fun same_variant :: "strategy \<Rightarrow> strategy \<Rightarrow> bool" where
  "same_variant (NumericValidation _) (NumericValidation _) = True"
| "same_variant CategoricalValidation CategoricalValidation = True"
| "same_variant (DateTimeValidation _ _) (DateTimeValidation _ _) = True"
| "same_variant (NullValidation _) (NullValidation _) = True"
| "same_variant (DistributionValidation _) (DistributionValidation _) = True"
| "same_variant (PatternValidation _) (PatternValidation _) = True"
| "same_variant (CompositeValidation _) (CompositeValidation _) = True"
| "same_variant _ _ = False"

text \<open>
  The column names a difference report mentions: the keys of a strategy's own
  differences, looked for below the strategy names of a composite.
\<close>

fun detail_columns :: "string \<Rightarrow> detail \<Rightarrow> string list" where
  "detail_columns k (Nested ds) = concat (map (\<lambda>p. detail_columns (fst p) (snd p)) ds)"
| "detail_columns k _ = [k]"

definition report_columns :: "differences \<Rightarrow> string list" where
  "report_columns ds = concat (map (\<lambda>p. detail_columns (fst p) (snd p)) ds)"

fun is_nested :: "detail \<Rightarrow> bool" where
  "is_nested (Nested _) = True"
| "is_nested _ = False"

text \<open>
  Scenario C: the numeric column agrees, the text column differs in row 1. And a
  source frame with a column the target lacks.
\<close>

definition scenario_c_expected :: dataset where
  "scenario_c_expected =
     \<lparr>columns = [(''amt'', NumSeries [Some 10, Some 20]),
                 (''name'', ObjSeries [Some ''ann'', Some ''bob''])],
      n_rows = 2\<rparr>"

definition scenario_c_actual :: dataset where
  "scenario_c_actual =
     \<lparr>columns = [(''amt'', NumSeries [Some 10, Some 20]),
                 (''name'', ObjSeries [Some ''ann'', Some ''rob''])],
      n_rows = 2\<rparr>"

definition scenario_c_outcome :: outcome where
  "scenario_c_outcome =
     \<lparr>status = Fail,
      differences =
        [(''CategoricalValidation'',
          Nested [(''name'', ValueDiff [(1, Str ''bob'')] [(1, Str ''rob'')])])]\<rparr>"

definition wide_source :: dataset where
  "wide_source =
     \<lparr>columns = [(''only_source'', NumSeries [Some 1, Some 2]),
                 (''amt'', NumSeries [Some 10, Some 20])],
      n_rows = 2\<rparr>"

text \<open>The rows that a Null outcome lists for a column.\<close>

definition null_rows :: "outcome \<Rightarrow> string \<Rightarrow> nat set" where
  "null_rows out column =
     (case map_of (differences out) column of
        Some (NullDiff n en an rows) \<Rightarrow> set rows
      | _ \<Rightarrow> {})"

text \<open>
  Scenario for the Null strategy: row 0 holds the empty string against a missing
  value, row 1 holds text on both sides.
\<close>

definition null_expected :: dataset where
  "null_expected = \<lparr>columns = [(''note'', ObjSeries [Some [], Some ''x''])], n_rows = 2\<rparr>"

definition null_actual :: dataset where
  "null_actual = \<lparr>columns = [(''note'', ObjSeries [None, Some ''y''])], n_rows = 2\<rparr>"

text \<open>
  The time the comparison uses, in the spec's words: the instant itself, or, when
  timezone_aware is off, the timestamp with its timezone stripped (the local
  wall-clock time).
\<close>

definition compared_time :: "bool \<Rightarrow> int option \<Rightarrow> int \<Rightarrow> int" where
  "compared_time timezone_aware tz t =
     (if timezone_aware then t else (case tz of None \<Rightarrow> t | Some off \<Rightarrow> t + off))"

text \<open>
  A timestamp scenario, in nanoseconds: the same two instants on both sides, the
  expected column in UTC and the actual column one hour east of it.
\<close>

definition utc_column :: series where
  "utc_column = TimeSeries (Some 0) [Some 0, Some 5000000000]"

definition east_column :: series where
  "east_column = TimeSeries (Some 3600000000000) [Some 0, Some 7000000000]"

definition ts_expected :: dataset where
  "ts_expected = \<lparr>columns = [(''created_at'', utc_column)], n_rows = 2\<rparr>"

definition ts_actual :: dataset where
  "ts_actual = \<lparr>columns = [(''created_at'', east_column)], n_rows = 2\<rparr>"

text \<open>
  The relative percentage difference, in the spec's words: the absolute difference
  between expected and actual, as a percentage of the size of the expected value.
\<close>

definition relative_pct_difference :: "real \<Rightarrow> real \<Rightarrow> real" where
  "relative_pct_difference e a = \<bar>e - a\<bar> / \<bar>e\<bar> * 100"

text \<open>A numeric column whose values are negative, and one twice as far from zero.\<close>

definition negative_expected :: dataset where
  "negative_expected = \<lparr>columns = [(''balance'', NumSeries [Some (-10), Some (-10)])], n_rows = 2\<rparr>"

definition negative_actual :: dataset where
  "negative_actual = \<lparr>columns = [(''balance'', NumSeries [Some (-20), Some (-20)])], n_rows = 2\<rparr>"

text \<open>
  The difference of row \<open>i\<close> of two numeric columns, where the machine computes it
  exactly: on float64, when both cells and their difference are float64 values; on
  int64, when the two columns are equally long and the difference is below \<open>2 ^ 53\<close>
  in size, which neither wraps around nor is rounded in the comparison.
\<close>

definition exact_difference :: "series \<Rightarrow> series \<Rightarrow> nat \<Rightarrow> real option" where
  "exact_difference ecol acol i =
     (case (ecol, acol) of
        (NumSeries xs, NumSeries ys) \<Rightarrow>
          (if i < length xs \<and> i < length ys
           then (case (xs ! i, ys ! i) of
                   (Some x, Some y) \<Rightarrow>
                     if round64 x = x \<and> round64 y = y \<and> round64 (x - y) = x - y
                     then Some (x - y) else None
                 | _ \<Rightarrow> None)
           else None)
      | (IntSeries xs, IntSeries ys) \<Rightarrow>
          (if length xs = length ys \<and> i < length xs \<and>
              \<bar>sint (xs ! i) - sint (ys ! i)\<bar> < 2 ^ 53
           then Some (of_int (sint (xs ! i) - sint (ys ! i)))
           else None)
      | _ \<Rightarrow> None)"

text \<open>
  Two numeric columns of each kind whose values are float64 and int64 numbers, and
  rows at which the code departs from exact arithmetic: the largest int64 against -1,
  and 1 against a float too small to change it.
\<close>

definition machine_expected :: dataset where
  "machine_expected =
     \<lparr>columns = [(''amt'', NumSeries [Some 10, Some 20]), (''qty'', IntSeries [1, 2])],
      n_rows = 2\<rparr>"

definition machine_actual :: dataset where
  "machine_actual =
     \<lparr>columns = [(''amt'', NumSeries [Some 10, Some 20.5]), (''qty'', IntSeries [1, 5])],
      n_rows = 2\<rparr>"

definition wrap_expected :: dataset where
  "wrap_expected = \<lparr>columns = [(''id'', IntSeries [9223372036854775807])], n_rows = 1\<rparr>"

definition wrap_actual :: dataset where
  "wrap_actual = \<lparr>columns = [(''id'', IntSeries [- 1])], n_rows = 1\<rparr>"

definition rounding_expected :: dataset where
  "rounding_expected = \<lparr>columns = [(''x'', NumSeries [Some 1])], n_rows = 1\<rparr>"

definition rounding_actual :: dataset where
  "rounding_actual = \<lparr>columns = [(''x'', NumSeries [Some (- (1 / 2 ^ 60))])], n_rows = 1\<rparr>"

section \<open>Calls on a store of objects\<close>

text \<open>
  To say that a call leaves its inputs alone, the objects it can reach are kept in a
  store: a list of objects, an address being a position in it. A frame holds the
  addresses of its columns, and a strategy instance is an object too. A statement that
  makes a Series (\<^verbatim>\<open>isna()\<close>, a comparison) adds an object to the store, and a
  statement that updates one in place (\<^verbatim>\<open>|=\<close>) overwrites the object at its
  address. The dictionaries a call builds are made by the call itself
  (\<^verbatim>\<open>differences = {}\<close>) and are values here.
\<close>

datatype object = SeriesObject series | MaskObject "bool list" | StrategyObject strategy

















section \<open>Helper lemmas\<close>

lemma bind_err_Inr: "bind_err m f = Inr r \<longleftrightarrow> (\<exists>x. m = Inr x \<and> f x = Inr r)"
  by (cases m) (simp_all add: bind_err_def)

lemma for_columns_map_of:
  "for_columns f cs found = Inr r \<Longrightarrow>
   map_of r c = (if c \<in> set cs then (case f c of Inr (Some x) \<Rightarrow> Some x | _ \<Rightarrow> map_of found c)
                 else map_of found c)"
proof (induction cs arbitrary: found)
  case Nil
  then show ?case by simp
next
  case (Cons k ks)
  then show ?case
    by (auto simp: update_conv' split: sum.splits option.splits if_splits)
qed

lemma for_columns_returns:
  "(\<forall>c \<in> set cs. \<exists>x. f c = Inr x) \<Longrightarrow> \<exists>r. for_columns f cs found = Inr r"
  by (induction cs arbitrary: found) (auto split: sum.splits option.splits)

lemma length_sub_aligned: "length (sub_aligned xs ys) = max (length xs) (length ys)"
  by (induction xs ys rule: sub_aligned.induct) auto

lemma nth_sub_aligned:
  "i < length xs \<Longrightarrow> i < length ys \<Longrightarrow>
   sub_aligned xs ys ! i = (case (xs ! i, ys ! i) of (Some p, Some q) \<Rightarrow> Some (p - q) | _ \<Rightarrow> None)"
proof (induction xs ys arbitrary: i rule: sub_aligned.induct)
  case (3 x xs y ys)
  then show ?case by (cases i) auto
qed auto

lemma loc_to_dict_mem:
  "(i, c) \<in> set (loc_to_dict msk col) \<longleftrightarrow>
     i < length (cells col) \<and> c = cells col ! i \<and> i < length msk \<and> msk ! i"
  unfolding loc_to_dict_def
  by (auto simp: in_set_enumerate_eq)

lemma loc_to_dict_rows:
  "fst ` set (loc_to_dict msk col) = {i. i < length (cells col) \<and> i < length msk \<and> msk ! i}"
proof (rule set_eqI)
  fix i
  show "i \<in> fst ` set (loc_to_dict msk col) \<longleftrightarrow>
        i \<in> {i. i < length (cells col) \<and> i < length msk \<and> msk ! i}"
  proof
    assume "i \<in> fst ` set (loc_to_dict msk col)"
    then obtain c where "(i, c) \<in> set (loc_to_dict msk col)" by auto
    then show "i \<in> {i. i < length (cells col) \<and> i < length msk \<and> msk ! i}"
      by (simp add: loc_to_dict_mem)
  next
    assume "i \<in> {i. i < length (cells col) \<and> i < length msk \<and> msk ! i}"
    then have "(i, cells col ! i) \<in> set (loc_to_dict msk col)"
      by (simp add: loc_to_dict_mem)
    then have "fst (i, cells col ! i) \<in> fst ` set (loc_to_dict msk col)"
      by (rule imageI)
    then show "i \<in> fst ` set (loc_to_dict msk col)" by simp
  qed
qed

lemma getitem_Some: "map_of (columns df) c = Some s \<Longrightarrow> getitem df c = Inr s"
  by (simp add: getitem_def)

lemma mask_any_nth: "mask_any msk \<longleftrightarrow> (\<exists>i < length msk. msk ! i)"
  by (auto simp: mask_any_def in_set_conv_nth)

declare exponent_up.simps [simp del] exponent_down.simps [simp del]

lemma exponent_down_le: "exponent_down x e \<le> e"
proof (induction x e rule: exponent_down.induct)
  case (1 x e)
  show ?case
  proof (cases "x < 1 \<and> - 1022 < e")
    case True
    with 1 have "exponent_down (x * 2) (e - 1) \<le> e - 1" by simp
    with True show ?thesis unfolding exponent_down.simps [of x e] by simp
  next
    case False
    then show ?thesis unfolding exponent_down.simps [of x e] by auto
  qed
qed

lemma exponent_up_le: "x < 2 ^ Suc k \<Longrightarrow> exponent_up x e \<le> e + int k"
proof (induction k arbitrary: x e)
  case 0
  then show ?case unfolding exponent_up.simps [of x e] by simp
next
  case (Suc k)
  show ?case
  proof (cases "2 \<le> x \<and> e < 1024")
    case True
    from Suc.prems have "x / 2 < 2 ^ Suc k" by simp
    from Suc.IH [OF this, of "e + 1"] True show ?thesis
      unfolding exponent_up.simps [of x e] by simp
  next
    case False
    then show ?thesis unfolding exponent_up.simps [of x e] by auto
  qed
qed

lemma round_half_even_of_int: "round_half_even (of_int m) = m"
  by (simp add: round_half_even_def)

text \<open>An integer below \<open>2 ^ 53\<close> in size is a float64 value.\<close>

lemma round64_of_int:
  assumes "\<bar>n\<bar> < 2 ^ 53"
  shows "round64 (of_int n) = of_int n"
proof -
  define x :: real where "x = \<bar>of_int n\<bar>"
  define q where "q = max (float_exponent x - 52) (- 1074)"
  have up: "x < 2 ^ Suc 52"
  proof -
    have "(of_int \<bar>n\<bar> :: real) < of_int (2 ^ 53)" using assms by (simp only: of_int_less_iff)
    then show ?thesis by (simp add: x_def)
  qed
  have "float_exponent x \<le> 52"
  proof (cases "1 \<le> x")
    case True
    then have "float_exponent x = exponent_up x 0" by (simp only: float_exponent_def if_True)
    with exponent_up_le [OF up, of 0] show ?thesis by simp
  next
    case False
    then have "float_exponent x = exponent_down x 0" by (simp only: float_exponent_def if_False)
    with exponent_down_le [of x 0] show ?thesis by simp
  qed
  then have q: "q \<le> 0" by (simp add: q_def)
  then have p: "pow2 q = 1 / 2 ^ nat (- q)" by (auto simp: pow2_def)
  have "of_int n / pow2 q = (of_int (n * 2 ^ nat (- q)) :: real)" by (simp add: p)
  then have "round_half_even (of_int n / pow2 q) = n * 2 ^ nat (- q)"
    by (simp only: round_half_even_of_int)
  then have "round64 (of_int n) = of_int (n * 2 ^ nat (- q)) * pow2 q"
    unfolding round64_def Let_def x_def [symmetric] q_def [symmetric] by (simp only:)
  then show ?thesis by (simp add: p)
qed


lemma numeric_column_cases:
  assumes "map_of (columns e) c = Some ecol" "map_of (columns a) c = Some acol"
    and "is_numeric_dtype ecol" "series_sub ecol acol = Inr d"
  shows "numeric_column tol e a c =
     (let msk = numeric_gt (numeric_abs d) tol
      in if mask_any msk
         then Inr (Some (ValueDiff (loc_to_dict msk ecol) (loc_to_dict msk acol)))
         else Inr None)"
  using assms by (simp add: numeric_column_def getitem_Some bind_err_def Let_def)

lemma numeric_rows:
  assumes run: "numeric_validate tol e a = Inr out"
    and ecol: "map_of (columns e) c = Some ecol"
    and acol: "map_of (columns a) c = Some acol"
    and num: "is_numeric_dtype ecol"
    and sub: "series_sub ecol acol = Inr d"
    and i: "i < length (cells ecol)"
  shows "i \<in> reported_rows out c \<longleftrightarrow>
         i < length (numeric_gt (numeric_abs d) tol) \<and> numeric_gt (numeric_abs d) tol ! i"
proof -
  define msk where "msk = numeric_gt (numeric_abs d) tol"
  from run obtain r where r: "for_columns (numeric_column tol e a) (column_names e) [] = Inr r"
    and out: "out = make_outcome r"
    by (auto simp: numeric_validate_def bind_err_Inr)
  have cin: "c \<in> set (column_names e)"
    using ecol by (auto simp: column_names_def dest: map_of_SomeD intro: rev_image_eqI)
  have look: "map_of r c =
      (if mask_any msk
       then Some (ValueDiff (loc_to_dict msk ecol) (loc_to_dict msk acol))
       else None)"
    using for_columns_map_of [OF r, of c] cin numeric_column_cases [OF ecol acol num sub, of tol]
    by (simp add: msk_def Let_def)
  have rows: "reported_rows out c =
      (if mask_any msk
       then {j. j < length (cells ecol) \<and> j < length msk \<and> msk ! j} \<union>
            {j. j < length (cells acol) \<and> j < length msk \<and> msk ! j}
       else {})"
    by (simp add: reported_rows_def out make_outcome_def look loc_to_dict_rows)
  show ?thesis
    unfolding msk_def [symmetric] using rows i by (auto simp: mask_any_nth)
qed

lemma float_mask_nth:
  assumes "i < length xs" "i < length ys" "xs ! i = Some x" "ys ! i = Some y"
  shows "i < length (numeric_gt (numeric_abs (Float64Values (float_sub xs ys))) tol) \<and>
         numeric_gt (numeric_abs (Float64Values (float_sub xs ys))) tol ! i =
           (\<bar>round64 (x - y)\<bar> > tol)"
  using assms by (simp add: float_sub_def length_sub_aligned nth_sub_aligned)

lemma sint_sub_small:
  fixes x y :: "64 word"
  assumes "\<bar>sint x - sint y\<bar> < 2 ^ 53"
  shows "sint (x - y) = sint x - sint y"
proof -
  have "- (2 ^ 63) \<le> sint x - sint y" "sint x - sint y < 2 ^ 63" using assms by simp_all
  then have "signed_take_bit 63 (sint x - sint y) = sint x - sint y"
    by (simp add: signed_take_bit_int_eq_self)
  then show ?thesis by (simp add: sint_word_ariths)
qed

lemma sint_abs64_small:
  fixes w :: "64 word"
  assumes "\<bar>sint w\<bar> < 2 ^ 53"
  shows "sint (abs64 w) = \<bar>sint w\<bar>"
proof (cases "sint w < 0")
  case True
  have "- (2 ^ 63) \<le> - sint w" "- sint w < 2 ^ 63" using assms by simp_all
  then have "signed_take_bit 63 (- sint w) = - sint w"
    by (simp add: signed_take_bit_int_eq_self)
  then have "sint (- w) = - sint w" by (simp add: sint_word_ariths)
  with True show ?thesis by (simp add: abs64_def)
next
  case False
  then show ?thesis by (simp add: abs64_def)
qed

lemma int_mask_nth:
  fixes xs ys :: "64 word list"
  assumes "length xs = length ys" "i < length xs"
    and small: "\<bar>sint (xs ! i) - sint (ys ! i)\<bar> < 2 ^ 53"
  shows "i < length (numeric_gt (numeric_abs (Int64Values (map2 (-) xs ys))) tol) \<and>
         numeric_gt (numeric_abs (Int64Values (map2 (-) xs ys))) tol ! i =
           (real_of_int \<bar>sint (xs ! i) - sint (ys ! i)\<bar> > tol)"
proof -
  have s: "sint (xs ! i - ys ! i) = sint (xs ! i) - sint (ys ! i)"
    by (rule sint_sub_small [OF small])
  have a: "sint (abs64 (xs ! i - ys ! i)) = \<bar>sint (xs ! i) - sint (ys ! i)\<bar>"
    using sint_abs64_small [of "xs ! i - ys ! i"] small by (simp add: s)
  have r: "round64 (of_int \<bar>sint (xs ! i) - sint (ys ! i)\<bar>) =
      of_int \<bar>sint (xs ! i) - sint (ys ! i)\<bar>"
    by (rule round64_of_int) (use small in simp)
  have "numeric_gt (numeric_abs (Int64Values (map2 (-) xs ys))) tol ! i =
      (round64 (of_int (sint (abs64 (xs ! i - ys ! i)))) > tol)"
    using assms(1,2) by (simp del: of_int_sint)
  also have "\<dots> = (real_of_int \<bar>sint (xs ! i) - sint (ys ! i)\<bar> > tol)"
    by (simp only: a r)
  finally show ?thesis using assms(1,2) by simp
qed

text \<open>
  C1. Numeric strategy, in frames with distinct column names: for a float64 or int64
  column held by both frames and a row whose difference the machine computes exactly,
  the row is absent from the column's differences when the absolute difference is at
  most the tolerance, and present when it exceeds it.
\<close>

theorem numeric_tolerance_exact:
  assumes run: "numeric_validate tol e a = Inr out"
    and names: "distinct (column_names e)" "distinct (column_names a)"
    and ecol: "map_of (columns e) c = Some ecol"
    and acol: "map_of (columns a) c = Some acol"
    and d: "exact_difference ecol acol i = Some d"
  shows "(\<bar>d\<bar> \<le> tol \<longrightarrow> i \<notin> reported_rows out c) \<and>
         (\<bar>d\<bar> > tol \<longrightarrow> i \<in> reported_rows out c)"
proof -
  consider
    (float) xs ys x y where "ecol = NumSeries xs" "acol = NumSeries ys"
      "i < length xs" "i < length ys" "xs ! i = Some x" "ys ! i = Some y"
      "round64 (x - y) = x - y" "d = x - y"
  | (int) xs ys where "ecol = IntSeries xs" "acol = IntSeries ys"
      "length xs = length ys" "i < length xs" "\<bar>sint (xs ! i) - sint (ys ! i)\<bar> < 2 ^ 53"
      "d = of_int (sint (xs ! i) - sint (ys ! i))"
    using d
    by (cases ecol; cases acol)
       (auto simp: exact_difference_def split: if_splits option.splits)
  then have "i \<in> reported_rows out c \<longleftrightarrow> \<bar>d\<bar> > tol"
  proof cases
    case float
    have sub: "series_sub ecol acol = Inr (Float64Values (float_sub xs ys))"
      by (simp add: float)
    have "i < length (cells ecol)" using float by simp
    from numeric_rows [OF run ecol acol _ sub this]
         float_mask_nth [OF float(3,4,5,6), of tol] float
    show ?thesis by simp
  next
    case int
    have sub: "series_sub ecol acol = Inr (Int64Values (map2 (-) xs ys))"
      by (simp add: int)
    have "i < length (cells ecol)" using int by simp
    from numeric_rows [OF run ecol acol _ sub this]
         int_mask_nth [OF int(3,4,5), of tol] int
    show ?thesis by simp
  qed
  then show ?thesis by auto
qed

text \<open>The two loops, one step at a time, for inputs that decide the test.\<close>

lemma exponent_up_step: "2 \<le> x \<Longrightarrow> e < 1024 \<Longrightarrow> exponent_up x e = exponent_up (x / 2) (e + 1)"
  unfolding exponent_up.simps [of x e] by simp

lemma exponent_up_stop: "x < 2 \<or> 1024 \<le> e \<Longrightarrow> exponent_up x e = e"
  unfolding exponent_up.simps [of x e] by auto

lemma exponent_down_step:
  "x < 1 \<Longrightarrow> - 1022 < e \<Longrightarrow> exponent_down x e = exponent_down (x * 2) (e - 1)"
  unfolding exponent_down.simps [of x e] by simp

lemma exponent_down_stop: "1 \<le> x \<or> e \<le> - 1022 \<Longrightarrow> exponent_down x e = e"
  unfolding exponent_down.simps [of x e] by auto

lemmas round64_eval = round64_def float_exponent_def round_half_even_def pow2_def Let_def
  exponent_up_step exponent_up_stop exponent_down_step exponent_down_stop

lemmas numeric_eval = numeric_validate_def numeric_column_def getitem_def column_names_def
  bind_err_def float_sub_def abs64_def mask_any_def loc_to_dict_def make_outcome_def

text \<open>Scenario A passes at tolerance 0.001; scenario B fails at 0.000001 and reports row 1.\<close>

lemma scenario_A:
  "numeric_validate 0.001 scenario_expected scenario_actual = Inr \<lparr>status = Pass, differences = []\<rparr>"
  by (simp add: numeric_eval scenario_expected_def scenario_actual_def;
      simp add: round64_eval;
      simp add: numeric_eval)

lemma scenario_B:
  "numeric_validate 0.000001 scenario_expected scenario_actual =
     Inr \<lparr>status = Fail,
          differences = [(''amt'', ValueDiff [(1, Num 20)] [(1, Num 20.0005)])]\<rparr>"
  by (simp add: numeric_eval scenario_expected_def scenario_actual_def;
      simp add: round64_eval;
      simp add: numeric_eval)

lemma machine_run:
  "numeric_validate 0.25 machine_expected machine_actual =
     Inr \<lparr>status = Fail,
          differences = [(''amt'', ValueDiff [(1, Num 20)] [(1, Num 20.5)]),
                         (''qty'', ValueDiff [(1, IntCell 2)] [(1, IntCell 5)])]\<rparr>"
  by (simp add: numeric_eval machine_expected_def machine_actual_def del: of_int_sint;
      simp add: round64_eval;
      simp add: numeric_eval del: of_int_sint;
      simp add: round64_eval;
      simp add: numeric_eval del: of_int_sint)

lemma machine_exact:
  "exact_difference (NumSeries [Some 10, Some 20]) (NumSeries [Some 10, Some 20.5]) 1 = Some (- 0.5)"
  "exact_difference (NumSeries [Some 10, Some 20]) (NumSeries [Some 10, Some 20.5]) 0 = Some 0"
  "exact_difference (IntSeries [1, 2]) (IntSeries [1, 5]) 1 = Some (- 3)"
  by (simp_all add: exact_difference_def round64_eval)

theorem numeric_tolerance_exact_witness:
  "numeric_validate 0.25 machine_expected machine_actual =
     Inr \<lparr>status = Fail,
          differences = [(''amt'', ValueDiff [(1, Num 20)] [(1, Num 20.5)]),
                         (''qty'', ValueDiff [(1, IntCell 2)] [(1, IntCell 5)])]\<rparr> \<and>
   distinct (column_names machine_expected) \<and> distinct (column_names machine_actual) \<and>
   exact_difference (NumSeries [Some 10, Some 20]) (NumSeries [Some 10, Some 20.5]) 1 = Some (- 0.5) \<and>
   exact_difference (NumSeries [Some 10, Some 20]) (NumSeries [Some 10, Some 20.5]) 0 = Some 0 \<and>
   exact_difference (IntSeries [1, 2]) (IntSeries [1, 5]) 1 = Some (- 3) \<and>
   1 \<in> reported_rows
          \<lparr>status = Fail,
           differences = [(''amt'', ValueDiff [(1, Num 20)] [(1, Num 20.5)]),
                          (''qty'', ValueDiff [(1, IntCell 2)] [(1, IntCell 5)])]\<rparr> ''amt'' \<and>
   0 \<notin> reported_rows
          \<lparr>status = Fail,
           differences = [(''amt'', ValueDiff [(1, Num 20)] [(1, Num 20.5)]),
                          (''qty'', ValueDiff [(1, IntCell 2)] [(1, IntCell 5)])]\<rparr> ''amt'' \<and>
   1 \<in> reported_rows
          \<lparr>status = Fail,
           differences = [(''amt'', ValueDiff [(1, Num 20)] [(1, Num 20.5)]),
                          (''qty'', ValueDiff [(1, IntCell 2)] [(1, IntCell 5)])]\<rparr> ''qty''"
proof -
  have n: "distinct (column_names machine_expected)" "distinct (column_names machine_actual)"
    by (simp_all add: column_names_def machine_expected_def machine_actual_def)
  have e: "map_of (columns machine_expected) ''amt'' = Some (NumSeries [Some 10, Some 20])"
    "map_of (columns machine_expected) ''qty'' = Some (IntSeries [1, 2])"
    by (simp_all add: machine_expected_def)
  have a: "map_of (columns machine_actual) ''amt'' = Some (NumSeries [Some 10, Some 20.5])"
    "map_of (columns machine_actual) ''qty'' = Some (IntSeries [1, 5])"
    by (simp_all add: machine_actual_def)
  from numeric_tolerance_exact [OF machine_run n e(1) a(1) machine_exact(1)]
       numeric_tolerance_exact [OF machine_run n e(1) a(1) machine_exact(2)]
       numeric_tolerance_exact [OF machine_run n e(2) a(2) machine_exact(3)]
       machine_run n machine_exact
  show ?thesis by simp
qed

text \<open>
  The claim of C1 as it is written fails on the machine's arithmetic. The largest int64
  against -1 at tolerance 0 differ by \<open>2 ^ 63\<close>; the subtraction wraps around to the
  least int64, which is its own absolute value and is not above 0, so the row is not
  reported. And 1 against \<open>- 2 ^ - 60\<close>, both float64 values, differ by more than 1;
  the difference is rounded to 1, which is not above the tolerance 1.
\<close>

theorem numeric_tolerance_counterexample:
  "numeric_validate 0 wrap_expected wrap_actual = Inr \<lparr>status = Pass, differences = []\<rparr> \<and>
   \<bar>sint (9223372036854775807 :: 64 word) - sint (- 1 :: 64 word)\<bar> = 9223372036854775808 \<and>
   numeric_validate 1 rounding_expected rounding_actual =
     Inr \<lparr>status = Pass, differences = []\<rparr> \<and>
   round64 1 = 1 \<and> round64 (- (1 / 2 ^ 60)) = - (1 / 2 ^ 60) \<and>
   \<bar>1 - (- (1 / 2 ^ 60))\<bar> > (1 :: real)"
  by (simp add: numeric_eval wrap_expected_def wrap_actual_def rounding_expected_def
        rounding_actual_def del: of_int_sint;
      simp add: round64_eval;
      simp add: numeric_eval)

lemma make_outcome_status: "status (make_outcome d) = Fail \<longleftrightarrow> differences (make_outcome d) \<noteq> []"
  by (simp add: make_outcome_def)

lemma composite_loop_inv:
  "composite_loop ss e a (d, st) = Inr (d', st') \<Longrightarrow> (st = Fail \<longleftrightarrow> d \<noteq> []) \<Longrightarrow>
   (st' = Fail \<longleftrightarrow> d' \<noteq> [])"
proof (induction ss arbitrary: d st)
  case Nil
  then show ?case by simp
next
  case (Cons s ss)
  show ?case
  proof (cases "validate s e a")
    case (Inl err)
    with Cons.prems show ?thesis by simp
  next
    case (Inr r)
    show ?thesis
    proof (cases "status r = Fail")
      case True
      with Inr Cons.prems(1)
      have "composite_loop ss e a (AList.update (class_name s) (Nested (differences r)) d, Fail)
            = Inr (d', st')" by simp
      from Cons.IH [OF this] show ?thesis by simp
    next
      case False
      with Inr Cons.prems(1) have "composite_loop ss e a (d, st) = Inr (d', st')" by simp
      from Cons.IH [OF this Cons.prems(2)] show ?thesis .
    qed
  qed
qed

text \<open>
  C2. Whatever the strategy, composite included, an outcome that is returned has status
  fail exactly when its differences are not empty.
\<close>

theorem status_iff_differences:
  "validate s e a = Inr out \<Longrightarrow> (status out = Fail \<longleftrightarrow> differences out \<noteq> [])"
proof (cases s)
  case (CompositeValidation ss)
  assume "validate s e a = Inr out"
  with CompositeValidation obtain d st where
    "composite_loop ss e a ([], Pass) = Inr (d, st)" and "out = \<lparr>status = st, differences = d\<rparr>"
    by (auto split: sum.splits)
  with composite_loop_inv [of ss e a "[]" Pass d st] show ?thesis by simp
qed (auto simp: numeric_validate_def categorical_validate_def datetime_validate_def
       null_validate_def distribution_validate_def pattern_validate_def bind_err_Inr
       make_outcome_def)

lemma composite_loop_char:
  "composite_loop ss e a (d, st) = Inr (d', st') \<Longrightarrow>
     (\<forall>s \<in> set ss. \<exists>r. validate s e a = Inr r) \<and>
     (st' = Fail \<longleftrightarrow> st = Fail \<or> (\<exists>s \<in> set ss. sub_fails s e a)) \<and>
     fst ` set d' = fst ` set d \<union> class_name ` {s \<in> set ss. sub_fails s e a}"
proof (induction ss arbitrary: d st)
  case Nil
  then show ?case by simp
next
  case (Cons s ss)
  show ?case
  proof (cases "validate s e a")
    case (Inl err)
    with Cons.prems show ?thesis by simp
  next
    case (Inr r)
    show ?thesis
    proof (cases "status r = Fail")
      case True
      then have f: "sub_fails s e a" by (simp add: sub_fails_def Inr)
      from True Inr Cons.prems(1)
      have "composite_loop ss e a (AList.update (class_name s) (Nested (differences r)) d, Fail)
            = Inr (d', st')" by simp
      from Cons.IH [OF this] f Inr show ?thesis
        by (auto simp: dom_update [unfolded dom_map_of_conv_image_fst])
    next
      case False
      then have f: "\<not> sub_fails s e a" by (simp add: sub_fails_def Inr)
      from False Inr Cons.prems(1) have "composite_loop ss e a (d, st) = Inr (d', st')" by simp
      from Cons.IH [OF this] f Inr show ?thesis by auto
    qed
  qed
qed

lemma composite_loop_returns:
  "(\<forall>s \<in> set ss. \<exists>r. validate s e a = Inr r) \<Longrightarrow> \<exists>r. composite_loop ss e a st = Inr r"
proof (induction ss arbitrary: st)
  case Nil
  then show ?case by simp
next
  case (Cons s ss)
  then obtain r where r: "validate s e a = Inr r" by auto
  obtain d q where st: "st = (d, q)" by (cases st)
  from Cons show ?case unfolding st by (simp add: r)
qed

lemma class_name_same_variant: "class_name s = class_name t \<longleftrightarrow> same_variant s t"
  by (cases s; cases t) simp_all

text \<open>
  C3. A composite that returns has run every sub-strategy to its outcome; its status is
  fail exactly when some sub-strategy reports fail; the keys of its differences are
  exactly the class names of the sub-strategies that report fail; and the key of a
  passing sub-strategy is there exactly when a failing sub-strategy is of its variant.
\<close>

theorem composite_report:
  assumes "validate (CompositeValidation ss) e a = Inr out"
  shows "(\<forall>s \<in> set ss. \<exists>r. validate s e a = Inr r) \<and>
         (status out = Fail \<longleftrightarrow> (\<exists>s \<in> set ss. sub_fails s e a)) \<and>
         fst ` set (differences out) = class_name ` {s \<in> set ss. sub_fails s e a} \<and>
         (\<forall>s \<in> set ss. \<not> sub_fails s e a \<longrightarrow>
            (class_name s \<in> fst ` set (differences out) \<longleftrightarrow>
             (\<exists>t \<in> set ss. sub_fails t e a \<and> same_variant t s)))"
proof -
  from assms obtain d st where
    l: "composite_loop ss e a ([], Pass) = Inr (d, st)" and o: "out = \<lparr>status = st, differences = d\<rparr>"
    by (auto split: sum.splits)
  from composite_loop_char [OF l]
  have all: "\<forall>s \<in> set ss. \<exists>r. validate s e a = Inr r"
    and st: "st = Fail \<longleftrightarrow> (\<exists>s \<in> set ss. sub_fails s e a)"
    and keys: "fst ` set d = class_name ` {s \<in> set ss. sub_fails s e a}"
    by simp_all
  have "class_name s \<in> fst ` set d \<longleftrightarrow> (\<exists>t \<in> set ss. sub_fails t e a \<and> same_variant t s)" for s
  proof
    assume "class_name s \<in> fst ` set d"
    then obtain t where "t \<in> set ss" "sub_fails t e a" "class_name t = class_name s"
      unfolding keys by auto
    then show "\<exists>t \<in> set ss. sub_fails t e a \<and> same_variant t s"
      by (auto simp: class_name_same_variant)
  next
    assume "\<exists>t \<in> set ss. sub_fails t e a \<and> same_variant t s"
    then obtain t where t: "t \<in> set ss" "sub_fails t e a" "class_name t = class_name s"
      by (auto simp: class_name_same_variant)
    then have "class_name t \<in> class_name ` {s \<in> set ss. sub_fails s e a}" by blast
    then show "class_name s \<in> fst ` set d" unfolding keys using t(3) by simp
  qed
  with all st keys show ?thesis by (simp add: o)
qed

lemma set_update_cases: "p \<in> set (AList.update k v al) \<Longrightarrow> p = (k, v) \<or> p \<in> set al"
  by (induction al) (auto split: if_splits)

lemma for_columns_keys:
  "for_columns f cs found = Inr r \<Longrightarrow>
   (\<forall>c d. f c = Inr (Some d) \<longrightarrow> \<not> is_nested d) \<Longrightarrow>
   (\<forall>p \<in> set found. fst p \<in> K \<and> \<not> is_nested (snd p)) \<Longrightarrow> set cs \<subseteq> K \<Longrightarrow>
   (\<forall>p \<in> set r. fst p \<in> K \<and> \<not> is_nested (snd p))"
proof (induction cs arbitrary: found)
  case Nil
  then show ?case by simp
next
  case (Cons c cs)
  show ?case
  proof (cases "f c")
    case (Inl err)
    with Cons.prems show ?thesis by simp
  next
    case (Inr od)
    show ?thesis
    proof (cases od)
      case None
      with Inr Cons.prems have "for_columns f cs found = Inr r" by simp
      from Cons.IH [OF this Cons.prems(2) Cons.prems(3)] Cons.prems(4) show ?thesis by simp
    next
      case (Some d)
      with Inr Cons.prems have l: "for_columns f cs (AList.update c d found) = Inr r" by simp
      have nd: "\<not> is_nested d" using Cons.prems(2) Inr Some by blast
      have "\<forall>p \<in> set (AList.update c d found). fst p \<in> K \<and> \<not> is_nested (snd p)"
        using Cons.prems(3) Cons.prems(4) nd
        by (auto dest!: set_update_cases)
      from Cons.IH [OF l Cons.prems(2) this] Cons.prems(4) show ?thesis by simp
    qed
  qed
qed

lemma report_columns_flat:
  "\<forall>p \<in> set ds. fst p \<in> K \<and> \<not> is_nested (snd p) \<Longrightarrow> set (report_columns ds) \<subseteq> K"
proof -
  have "\<not> is_nested d \<Longrightarrow> detail_columns k d = [k]" for k d by (cases d) auto
  then show "\<forall>p \<in> set ds. fst p \<in> K \<and> \<not> is_nested (snd p) \<Longrightarrow> set (report_columns ds) \<subseteq> K"
    by (auto simp: report_columns_def)
qed

lemma numeric_column_flat: "numeric_column t e a c = Inr (Some d) \<Longrightarrow> \<not> is_nested d"
  by (auto simp: numeric_column_def bind_err_def Let_def split: sum.splits if_splits)

lemma categorical_column_flat: "categorical_column e a c = Inr (Some d) \<Longrightarrow> \<not> is_nested d"
  by (auto simp: categorical_column_def bind_err_def split: sum.splits if_splits)

lemma datetime_column_flat: "datetime_column tz al e a c = Inr (Some d) \<Longrightarrow> \<not> is_nested d"
  by (auto simp: datetime_column_def bind_err_def split: sum.splits if_splits)

lemma null_column_flat: "null_column b e a c = Inr (Some d) \<Longrightarrow> \<not> is_nested d"
  by (auto simp: null_column_def bind_err_def Let_def split: sum.splits if_splits)

lemma distribution_column_flat: "distribution_column t e a c = Inr (Some d) \<Longrightarrow> \<not> is_nested d"
  by (auto simp: distribution_column_def bind_err_def split: sum.splits if_splits)

lemma pattern_column_flat: "pattern_column ps e a c = Inr (Some d) \<Longrightarrow> \<not> is_nested d"
  by (auto simp: pattern_column_def bind_err_def split: sum.splits if_splits option.splits)

lemma leaf_columns:
  assumes "for_columns f (column_names e) [] = Inr r"
    and "\<And>c d. f c = Inr (Some d) \<Longrightarrow> \<not> is_nested d"
  shows "set (report_columns r) \<subseteq> set (column_names e)"
proof -
  have "\<forall>p \<in> set r. fst p \<in> set (column_names e) \<and> \<not> is_nested (snd p)"
    by (rule for_columns_keys [OF assms(1)]) (use assms(2) in auto)
  then show ?thesis by (rule report_columns_flat)
qed

lemma report_columns_update:
  "set (report_columns (AList.update k (Nested x) d)) \<subseteq> set (report_columns d) \<union> set (report_columns x)"
proof (induction d)
  case Nil
  then show ?case by (simp add: report_columns_def)
next
  case (Cons p d)
  then show ?case by (auto simp: report_columns_def)
qed

lemma validate_columns:
  "validate s e a = Inr out \<Longrightarrow> set (report_columns (differences out)) \<subseteq> set (column_names e)"
proof (induction s arbitrary: out)
  case (NumericValidation t)
  then show ?case
    by (auto simp: numeric_validate_def bind_err_Inr make_outcome_def
        dest!: leaf_columns [OF _ numeric_column_flat])
next
  case CategoricalValidation
  then show ?case
    by (auto simp: categorical_validate_def bind_err_Inr make_outcome_def
        dest!: leaf_columns [OF _ categorical_column_flat])
next
  case (DateTimeValidation tz al)
  then show ?case
    by (auto simp: datetime_validate_def bind_err_Inr make_outcome_def
        dest!: leaf_columns [OF _ datetime_column_flat])
next
  case (NullValidation b)
  then show ?case
    by (auto simp: null_validate_def bind_err_Inr make_outcome_def
        dest!: leaf_columns [OF _ null_column_flat])
next
  case (DistributionValidation t)
  then show ?case
    by (auto simp: distribution_validate_def bind_err_Inr make_outcome_def
        dest!: leaf_columns [OF _ distribution_column_flat])
next
  case (PatternValidation ps)
  then show ?case
    by (auto simp: pattern_validate_def bind_err_Inr make_outcome_def
        dest!: leaf_columns [OF _ pattern_column_flat])
next
  case (CompositeValidation ss)
  have loop: "composite_loop ts e a (d, st) = Inr (d', st') \<Longrightarrow> set ts \<subseteq> set ss \<Longrightarrow>
      set (report_columns d) \<subseteq> set (column_names e) \<Longrightarrow>
      set (report_columns d') \<subseteq> set (column_names e)" for ts d st d' st'
  proof (induction ts arbitrary: d st)
    case Nil
    then show ?case by simp
  next
    case (Cons t ts)
    show ?case
    proof (cases "validate t e a")
      case (Inl err)
      with Cons.prems show ?thesis by simp
    next
      case (Inr r)
      have t: "t \<in> set ss" using Cons.prems(2) by simp
      have rc: "set (report_columns (differences r)) \<subseteq> set (column_names e)"
        by (rule CompositeValidation.IH [OF t Inr])
      show ?thesis
      proof (cases "status r = Fail")
        case True
        with Inr Cons.prems(1)
        have l: "composite_loop ts e a
                   (AList.update (class_name t) (Nested (differences r)) d, Fail) = Inr (d', st')"
          by simp
        have "set (report_columns (AList.update (class_name t) (Nested (differences r)) d))
              \<subseteq> set (column_names e)"
          using report_columns_update [of "class_name t" "differences r" d] rc Cons.prems(3)
          by blast
        from Cons.IH [OF l _ this] Cons.prems(2) show ?thesis by simp
      next
        case False
        with Inr Cons.prems(1) have "composite_loop ts e a (d, st) = Inr (d', st')" by simp
        from Cons.IH [OF this _ Cons.prems(3)] Cons.prems(2) show ?thesis by simp
      qed
    qed
  qed
  from CompositeValidation.prems obtain d st where
    l: "composite_loop ss e a ([], Pass) = Inr (d, st)" and o: "out = \<lparr>status = st, differences = d\<rparr>"
    by (auto split: sum.splits)
  from loop [OF l] show ?case by (simp add: o report_columns_def)
qed

lemma set_unique: "set (unique xs) = set xs"
  by (induction xs) auto

lemma set_intersection: "set (intersection xs ys) = set xs \<inter> set ys"
  by (auto simp: intersection_def set_unique)

lemma select_series_names: "select_series df cs = Inr cols \<Longrightarrow> map fst cols = cs"
  by (induction cs arbitrary: cols) (auto simp: bind_err_Inr)

lemma select_columns_names: "select_columns df cs = Inr df' \<Longrightarrow> column_names df' = cs"
  by (auto simp: select_columns_def bind_err_Inr column_names_def dest: select_series_names)

text \<open>
  C4. When the orchestrator returns a summary, the two frames it handed to the strategy
  have exactly the column names that occur in both inputs, and every column name in
  the summary's difference report occurs in both inputs.
\<close>

theorem orchestrator_common_columns:
  assumes "validate_query strat (Inr src) (Inr tgt) = Inr summ"
  shows "\<exists>source_data target_data result.
           select_columns src (intersection (column_names src) (column_names tgt)) = Inr source_data \<and>
           select_columns tgt (intersection (column_names src) (column_names tgt)) = Inr target_data \<and>
           validate strat source_data target_data = Inr result \<and>
           set (column_names source_data) = set (column_names src) \<inter> set (column_names tgt) \<and>
           set (column_names target_data) = set (column_names src) \<inter> set (column_names tgt) \<and>
           set (report_columns (details summ)) \<subseteq> set (column_names src) \<inter> set (column_names tgt)"
proof -
  let ?cc = "intersection (column_names src) (column_names tgt)"
  from assms have "validate_query_body strat (Inr src) (Inr tgt) = Inr summ"
    by (simp add: validate_query_def split: sum.splits)
  then obtain sd td r where
    sd: "select_columns src ?cc = Inr sd" and td: "select_columns tgt ?cc = Inr td"
    and r: "validate strat sd td = Inr r"
    and summ: "details summ = (if status r = Fail then differences r else [])"
    by (auto simp: validate_query_body_def bind_err_Inr Let_def)
  have n1: "column_names sd = ?cc" by (rule select_columns_names [OF sd])
  have n2: "column_names td = ?cc" by (rule select_columns_names [OF td])
  have "set (report_columns (differences r)) \<subseteq> set ?cc"
    using validate_columns [OF r] n1 by simp
  then have "set (report_columns (details summ)) \<subseteq> set ?cc"
    by (cases "status r = Fail") (simp_all add: summ report_columns_def)
  with sd td r n1 n2 show ?thesis by (simp add: set_intersection)
qed

lemmas frame_eval = getitem_def column_names_def bind_err_def float_sub_def abs64_def
  mask_any_def loc_to_dict_def make_outcome_def

lemma scenario_C_numeric:
  "validate (NumericValidation 0) scenario_c_expected scenario_c_actual =
     Inr \<lparr>status = Pass, differences = []\<rparr>"
  by (simp add: numeric_validate_def numeric_column_def frame_eval
        scenario_c_expected_def scenario_c_actual_def;
      simp add: round64_eval;
      simp add: numeric_validate_def numeric_column_def frame_eval)

lemma scenario_C_categorical:
  "validate CategoricalValidation scenario_c_expected scenario_c_actual =
     Inr \<lparr>status = Fail,
          differences = [(''name'', ValueDiff [(1, Str ''bob'')] [(1, Str ''rob'')])]\<rparr>"
  by (simp add: categorical_validate_def categorical_column_def series_ne_def cell_ne_def frame_eval
        scenario_c_expected_def scenario_c_actual_def)

lemma scenario_C:
  "validate (CompositeValidation [NumericValidation 0, CategoricalValidation])
     scenario_c_expected scenario_c_actual = Inr scenario_c_outcome"
  by (simp add: scenario_C_numeric scenario_C_categorical scenario_c_outcome_def
        del: validate.simps(1,2))

theorem status_iff_differences_witness:
  "validate (CompositeValidation [NumericValidation 0, CategoricalValidation])
     scenario_c_expected scenario_c_actual = Inr scenario_c_outcome \<and>
   (status scenario_c_outcome = Fail \<longleftrightarrow> differences scenario_c_outcome \<noteq> []) \<and>
   status scenario_c_outcome = Fail"
  using status_iff_differences [OF scenario_C] scenario_C
  by (simp add: scenario_c_outcome_def)

theorem composite_report_witness:
  "validate (CompositeValidation [NumericValidation 0, CategoricalValidation])
     scenario_c_expected scenario_c_actual = Inr scenario_c_outcome \<and>
   status scenario_c_outcome = Fail \<and>
   fst ` set (differences scenario_c_outcome) = {''CategoricalValidation''} \<and>
   \<not> sub_fails (NumericValidation 0) scenario_c_expected scenario_c_actual \<and>
   sub_fails CategoricalValidation scenario_c_expected scenario_c_actual \<and>
   class_name (NumericValidation 0) \<notin> fst ` set (differences scenario_c_outcome)"
proof -
  have n: "\<not> sub_fails (NumericValidation 0) scenario_c_expected scenario_c_actual"
    by (simp add: sub_fails_def scenario_C_numeric del: validate.simps)
  have c: "sub_fails CategoricalValidation scenario_c_expected scenario_c_actual"
    by (simp add: sub_fails_def scenario_C_categorical del: validate.simps)
  from composite_report [OF scenario_C]
  have "status scenario_c_outcome = Fail \<longleftrightarrow>
        (\<exists>s \<in> set [NumericValidation 0, CategoricalValidation].
           sub_fails s scenario_c_expected scenario_c_actual)"
    by blast
  with c have st: "status scenario_c_outcome = Fail" by simp
  have keys: "fst ` set (differences scenario_c_outcome) = {''CategoricalValidation''}"
    by (simp add: scenario_c_outcome_def)
  show ?thesis using scenario_C st keys n c by simp
qed

lemma wide_source_run:
  "validate_query (NumericValidation 0.000001) (Inr wide_source) (Inr scenario_actual) =
     Inr \<lparr>summary_status = Fail,
          details = [(''amt'', ValueDiff [(1, Num 20)] [(1, Num 20.0005)])],
          source_rows = 2, target_rows = 2\<rparr>"
  by (simp add: validate_query_def validate_query_body_def intersection_def select_columns_def
        numeric_validate_def numeric_column_def frame_eval wide_source_def scenario_actual_def;
      simp add: round64_eval;
      simp add: validate_query_def validate_query_body_def numeric_validate_def
        numeric_column_def frame_eval)

theorem orchestrator_common_columns_witness:
  "validate_query (NumericValidation 0.000001) (Inr wide_source) (Inr scenario_actual) =
     Inr \<lparr>summary_status = Fail,
          details = [(''amt'', ValueDiff [(1, Num 20)] [(1, Num 20.0005)])],
          source_rows = 2, target_rows = 2\<rparr> \<and>
   ''only_source'' \<in> set (column_names wide_source) \<and>
   ''only_source'' \<notin> set (report_columns [(''amt'', ValueDiff [(1, Num 20)] [(1, Num 20.0005)])])"
  using orchestrator_common_columns [OF wide_source_run] wide_source_run
  by (auto simp: column_names_def wide_source_def scenario_actual_def)

lemma length_null_like: "length (null_like flag col) = length (cells col)"
  by (simp add: null_like_def isna_def mask_or_def series_eq_str_def Let_def)

lemma null_like_nth:
  "i < length (cells col) \<Longrightarrow>
   null_like flag col ! i =
     (is_null (cells col ! i) \<or>
      (flag \<and> (cells col ! i = Str [] \<or> cells col ! i = Str ''null/empty'')))"
  by (simp add: null_like_def isna_def mask_or_def series_eq_str_def Let_def)

lemma for_columns_each:
  "for_columns f cs found = Inr r \<Longrightarrow> c \<in> set cs \<Longrightarrow> \<exists>x. f c = Inr x"
  by (induction cs arbitrary: found) (auto split: sum.splits option.splits)

lemma mask_index_set: "set (mask_index msk) = {i. i < length msk \<and> msk ! i}"
  by (auto simp: mask_index_def)

lemma column_in_names: "map_of (columns df) c = Some s \<Longrightarrow> c \<in> set (column_names df)"
  by (auto simp: column_names_def dest: map_of_SomeD intro: rev_image_eqI)

text \<open>
  C6. Null strategy: a row with the empty string on one side and a missing value on
  the other is not listed when treat_empty_as_null is set, and is listed when it is
  not.
\<close>

theorem null_empty_string:
  assumes run: "null_validate flag e a = Inr out"
    and ecol: "map_of (columns e) c = Some ecol"
    and acol: "map_of (columns a) c = Some acol"
    and i: "i < length (cells ecol)"
    and sides: "(cells ecol ! i = Str [] \<and> is_null (cells acol ! i)) \<or>
                (is_null (cells ecol ! i) \<and> cells acol ! i = Str [])"
  shows "(flag \<longrightarrow> i \<notin> null_rows out c) \<and> (\<not> flag \<longrightarrow> i \<in> null_rows out c)"
proof -
  define en where "en = null_like flag ecol"
  define an where "an = null_like flag acol"
  from run obtain r where r: "for_columns (null_column flag e a) (column_names e) [] = Inr r"
    and out: "out = make_outcome r"
    by (auto simp: null_validate_def bind_err_Inr)
  have cin: "c \<in> set (column_names e)" by (rule column_in_names [OF ecol])
  from for_columns_each [OF r cin] obtain x where x: "null_column flag e a c = Inr x" ..
  have col: "null_column flag e a c =
      bind_err (mask_ne en an) (\<lambda>msk.
         if mask_any msk
         then Inr (Some (NullDiff (mask_sum msk) (mask_sum en) (mask_sum an) (mask_index msk)))
         else Inr None)"
    unfolding en_def an_def
    using ecol acol by (simp add: null_column_def getitem_Some bind_err_def Let_def)
  from x col have len: "length en = length an"
    by (auto simp: bind_err_Inr mask_ne_def split: if_splits)
  define msk where "msk = map2 (\<noteq>) en an"
  have ne: "mask_ne en an = Inr msk" using len by (simp add: mask_ne_def msk_def)
  have i2: "i < length (cells acol)"
    using len i by (simp add: en_def an_def length_null_like)
  have il: "i < length msk" using i len by (simp add: msk_def en_def length_null_like)
  have mi: "msk ! i = (\<not> flag)"
    using i i2 sides il
    by (auto simp: msk_def en_def an_def null_like_nth length_null_like)
  have look: "map_of r c =
      (if mask_any msk
       then Some (NullDiff (mask_sum msk) (mask_sum en) (mask_sum an) (mask_index msk))
       else None)"
    using for_columns_map_of [OF r, of c] cin col ne by (simp add: bind_err_def)
  have rows: "null_rows out c = (if mask_any msk then {j. j < length msk \<and> msk ! j} else {})"
    by (simp add: null_rows_def out make_outcome_def look mask_index_set)
  show ?thesis using rows mi il by (auto simp: mask_any_nth)
qed

lemmas null_eval = null_validate_def null_column_def null_like_def isna_def series_eq_str_def
  mask_or_def mask_ne_def mask_sum_def mask_index_def getitem_def column_names_def bind_err_def
  mask_any_def make_outcome_def Let_def null_expected_def null_actual_def

lemma null_run_true:
  "null_validate True null_expected null_actual = Inr \<lparr>status = Pass, differences = []\<rparr>"
  by (simp add: null_eval)

lemma null_run_false:
  "null_validate False null_expected null_actual =
     Inr \<lparr>status = Fail, differences = [(''note'', NullDiff 1 0 1 [0])]\<rparr>"
  by (simp add: null_eval upt_rec)

theorem null_empty_string_witness:
  "null_validate True null_expected null_actual = Inr \<lparr>status = Pass, differences = []\<rparr> \<and>
   0 \<notin> null_rows \<lparr>status = Pass, differences = []\<rparr> ''note'' \<and>
   null_validate False null_expected null_actual =
     Inr \<lparr>status = Fail, differences = [(''note'', NullDiff 1 0 1 [0])]\<rparr> \<and>
   0 \<in> null_rows \<lparr>status = Fail, differences = [(''note'', NullDiff 1 0 1 [0])]\<rparr> ''note''"
proof -
  have e: "map_of (columns null_expected) ''note'' = Some (ObjSeries [Some [], Some ''x''])"
    by (simp add: null_expected_def)
  have a: "map_of (columns null_actual) ''note'' = Some (ObjSeries [None, Some ''y''])"
    by (simp add: null_actual_def)
  from null_empty_string [OF null_run_true e a, of 0]
       null_empty_string [OF null_run_false e a, of 0] null_run_true null_run_false
  show ?thesis by simp
qed

text \<open>
  The claim of C3 as it is written fails where two sub-strategies share a class: the
  Null strategy with the flag set passes on the two frames, the one without it fails,
  and the key of the passing one is in the composite's differences.
\<close>

theorem composite_passing_key_counterexample:
  "validate (CompositeValidation [NullValidation True, NullValidation False])
     null_expected null_actual =
     Inr \<lparr>status = Fail,
          differences = [(''NullValidation'', Nested [(''note'', NullDiff 1 0 1 [0])])]\<rparr> \<and>
   validate (NullValidation True) null_expected null_actual =
     Inr \<lparr>status = Pass, differences = []\<rparr> \<and>
   \<not> sub_fails (NullValidation True) null_expected null_actual \<and>
   map_of [(''NullValidation'', Nested [(''note'', NullDiff 1 0 1 [0])])]
     (class_name (NullValidation True)) = Some (Nested [(''note'', NullDiff 1 0 1 [0])])"
  by (simp add: null_run_true null_run_false sub_fails_def)

lemma tz_localize_none_nth:
  "i < length xs \<Longrightarrow> xs ! i = Some s \<Longrightarrow>
   tz_localize_none tz xs ! i = Some (compared_time False tz s)"
  by (simp add: tz_localize_none_def compared_time_def split: option.splits)

lemma length_tz_localize_none: "length (tz_localize_none tz xs) = length xs"
  by (simp add: tz_localize_none_def split: option.splits)

lemma gt_abs_sub_nth:
  assumes "i < length xs" "i < length ys" "xs ! i = Some p" "ys ! i = Some q"
  shows "i < length (series_gt (series_abs (sub_aligned xs ys)) t) \<and>
         series_gt (series_abs (sub_aligned xs ys)) t ! i = (\<bar>p - q\<bar> > t)"
  using assms
  by (simp add: series_gt_def series_abs_def length_sub_aligned nth_sub_aligned)

text \<open>
  The mask of two timestamp columns: a row that holds a timestamp on both sides is in
  it exactly when the absolute difference of the two compared times (timezones
  stripped when timezone_aware is off) exceeds the allowed seconds.
\<close>

lemma datetime_mask_rows:
  assumes m: "datetime_mask timezone_aware (timedelta_seconds secs)
                (TimeSeries tz1 xs) (TimeSeries tz2 ys) = Inr msk"
    and i: "i < length xs" "i < length ys"
    and vals: "xs ! i = Some s" "ys ! i = Some t"
  shows "i < length msk \<and>
         (msk ! i \<longleftrightarrow>
            \<bar>compared_time timezone_aware tz1 s - compared_time timezone_aware tz2 t\<bar>
              > secs * 1000000000)"
proof (cases timezone_aware)
  case True
  with m have "msk = series_gt (series_abs (sub_aligned xs ys)) (timedelta_seconds secs)"
    by (auto simp: datetime_mask_def bind_err_Inr Let_def split: if_splits)
  with gt_abs_sub_nth [OF i vals, of "timedelta_seconds secs"] True show ?thesis
    by (simp add: compared_time_def timedelta_seconds_def)
next
  case False
  let ?xs = "tz_localize_none tz1 xs" and ?ys = "tz_localize_none tz2 ys"
  from False m have "msk = series_gt (series_abs (sub_aligned ?xs ?ys)) (timedelta_seconds secs)"
    by (auto simp: datetime_mask_def bind_err_Inr index_sub_def Let_def split: if_splits)
  with gt_abs_sub_nth [of i ?xs ?ys "compared_time False tz1 s" "compared_time False tz2 t"
         "timedelta_seconds secs"] i vals False
  show ?thesis
    by (simp add: length_tz_localize_none tz_localize_none_nth timedelta_seconds_def)
qed

lemmas datetime_eval = datetime_mask_def bind_err_def index_sub_def tz_localize_none_def
  series_abs_def series_gt_def timedelta_seconds_def utc_column_def east_column_def Let_def

lemma datetime_mask_aware:
  "datetime_mask True (timedelta_seconds 1) utc_column east_column = Inr [False, True]"
  by (simp add: datetime_eval)

lemma datetime_mask_naive:
  "datetime_mask False (timedelta_seconds 1) utc_column east_column = Inr [True, True]"
  by (simp add: datetime_eval)

text \<open>When the mask of some timestamp column has a row, the strategy raises.\<close>

lemma datetime_column_raises:
  assumes "map_of (columns e) c = Some (TimeSeries tz1 xs)" "map_of (columns a) c = Some acol"
    and "datetime_mask aware allowed (TimeSeries tz1 xs) acol = Inr msk" "mask_any msk"
  shows "datetime_column aware allowed e a c = Inl (difference_seconds_to_dict aware)"
  using assms by (simp add: datetime_column_def getitem_Some bind_err_def)

lemma for_columns_nothing:
  "for_columns f cs found = Inr r \<Longrightarrow> (\<And>c d. f c \<noteq> Inr (Some d)) \<Longrightarrow> r = found"
proof (induction cs arbitrary: found)
  case Nil
  then show ?case by simp
next
  case (Cons c cs)
  then show ?case by (cases "f c") (auto split: option.splits)
qed

lemma datetime_column_no_detail: "datetime_column aware allowed e a c \<noteq> Inr (Some d)"
  by (auto simp: datetime_column_def bind_err_def split: sum.splits if_splits)

text \<open>Every outcome the DateTime strategy returns is pass, with no difference.\<close>

lemma datetime_never_fails:
  assumes "datetime_validate aware allowed e a = Inr out"
  shows "out = \<lparr>status = Pass, differences = []\<rparr>"
proof -
  from assms obtain r where
    r: "for_columns (datetime_column aware allowed e a) (column_names e) [] = Inr r"
    and out: "out = make_outcome r"
    by (auto simp: datetime_validate_def bind_err_Inr)
  have "r = []" by (rule for_columns_nothing [OF r]) (rule datetime_column_no_detail)
  then show ?thesis by (simp add: out make_outcome_def)
qed

text \<open>
  C7. Two timestamp columns whose row 1 differs by two seconds, with one second
  allowed: the mask has the row, with timezone_aware on and off, but building its
  detail raises AttributeError, so no mismatch is reported: the strategy returns no
  outcome at all.
\<close>

theorem datetime_mismatch_raises:
  "DateTimeValidation_init True 1 = Inr (DateTimeValidation True 1000000000) \<and>
   DateTimeValidation_init False 1 = Inr (DateTimeValidation False 1000000000) \<and>
   datetime_mask True 1000000000 utc_column east_column = Inr [False, True] \<and>
   datetime_mask False 1000000000 utc_column east_column = Inr [True, True] \<and>
   validate (DateTimeValidation True 1000000000) ts_expected ts_actual =
     Inl (AttributeError ''Series object has no attribute total_seconds'') \<and>
   validate (DateTimeValidation False 1000000000) ts_expected ts_actual =
     Inl (AttributeError ''Index object has no attribute to_dict'')"
proof -
  have a: "datetime_mask True 1000000000 utc_column east_column = Inr [False, True]"
    using datetime_mask_aware by (simp add: timedelta_seconds_def)
  have n: "datetime_mask False 1000000000 utc_column east_column = Inr [True, True]"
    using datetime_mask_naive by (simp add: timedelta_seconds_def)
  have dt: "is_datetime64_any_dtype utc_column" by (simp add: utc_column_def)
  have "validate (DateTimeValidation True 1000000000) ts_expected ts_actual =
     Inl (AttributeError ''Series object has no attribute total_seconds'')"
    by (simp add: datetime_validate_def datetime_column_def getitem_def column_names_def
          ts_expected_def ts_actual_def a dt bind_err_def mask_any_def
          difference_seconds_to_dict_def)
  moreover have "validate (DateTimeValidation False 1000000000) ts_expected ts_actual =
     Inl (AttributeError ''Index object has no attribute to_dict'')"
    by (simp add: datetime_validate_def datetime_column_def getitem_def column_names_def
          ts_expected_def ts_actual_def n dt bind_err_def mask_any_def
          difference_seconds_to_dict_def)
  ultimately show ?thesis
    using a n by (simp add: DateTimeValidation_init_def timedelta_seconds_def)
qed

text \<open>
  C9. The Pattern constructor raises NameError for the name re as soon as the patterns
  mapping has an entry, whatever re.compile would do; and the name List of the
  Composite constructor's annotation is not bound in the module either.
\<close>

theorem pattern_constructor_name_error:
  "patterns \<noteq> [] \<Longrightarrow>
   PatternValidation_init re_compile patterns = Inl (NameError ''name re is not defined'') \<and>
   lookup_global strategies_globals ''List'' = Inl (NameError ''name List is not defined'')"
proof -
  assume "patterns \<noteq> []"
  then obtain k v rest where p: "patterns = (k, v) # rest" by (cases patterns) auto
  show ?thesis
    by (simp add: p PatternValidation_init_def bind_err_def lookup_global_def strategies_globals_def)
qed

theorem pattern_constructor_name_error_witness:
  "[(''email'', ''^.+@.+$'')] \<noteq> [] \<and>
   PatternValidation_init (\<lambda>v. Inr (\<lambda>s. True)) [(''email'', ''^.+@.+$'')] =
     Inl (NameError ''name re is not defined'') \<and>
   lookup_global strategies_globals ''List'' = Inl (NameError ''name List is not defined'')"
  using pattern_constructor_name_error [of "[(''email'', ''^.+@.+$'')]" "\<lambda>v. Inr (\<lambda>s. True)"]
  by simp

lemma pattern_constructor_empty: "PatternValidation_init re_compile [] = Inr (PatternValidation [])"
  by (simp add: PatternValidation_init_def bind_err_def)

text \<open>
  C8. A source whose query fails: the handler of the orchestrator evaluates the name
  ValidationError, which the validator module does not bind, so the caller gets a
  NameError without the cause's message and not a ValidationError.
\<close>

theorem validate_query_failure_name_error:
  "validate_query (NumericValidation 0)
     (Inl (DatabaseError ''Failed to execute DuckDB query: no such table'')) (Inr scenario_actual) =
     Inl (NameError ''name ValidationError is not defined'')"
  by (simp add: validate_query_def validate_query_body_def bind_err_def raise_ValidationError_def
        lookup_global_def validator_globals_def)

lemma validate_query_never_validation_error:
  "validate_query strat src tgt \<noteq> Inl (ValidationError m)"
  by (simp add: validate_query_def raise_ValidationError_def lookup_global_def
        validator_globals_def split: sum.splits)

lemma validate_query_no_partial_result:
  "validate_query strat (Inl e) tgt = Inl (raise_ValidationError e)"
  "validate_query strat (Inr src) (Inl e) = Inl (raise_ValidationError e)"
  by (simp_all add: validate_query_def validate_query_body_def bind_err_def)

lemma stat_entry_zero: "stat_entry threshold_pct (Some 0) actual_value = None"
  by (simp add: stat_entry_def)

lemma stat_entry_positive:
  "0 < e \<Longrightarrow>
   stat_entry threshold_pct (Some e) (Some a) \<noteq> None \<longleftrightarrow> relative_pct_difference e a > threshold_pct"
  by (simp add: stat_entry_def fsub_def fabs_def fdiv_def fmul_def fgt_def Let_def
        relative_pct_difference_def)

lemma stat_entry_negative:
  "e < 0 \<Longrightarrow> 0 \<le> threshold_pct \<Longrightarrow> stat_entry threshold_pct (Some e) (Some a) = None"
proof -
  assume e: "e < 0" and t: "0 \<le> threshold_pct"
  have "0 \<le> \<bar>e - a\<bar> * 100" by simp
  then have "\<bar>e - a\<bar> * 100 / e \<le> 0" using e by (rule divide_nonneg_neg)
  then have "\<bar>e - a\<bar> / e * 100 \<le> 0" by simp
  with t show ?thesis
    by (simp add: stat_entry_def fsub_def fabs_def fdiv_def fmul_def fgt_def Let_def)
qed

lemma negative_stats:
  "column_stats (NumSeries [Some (-10), Some (-10)]) =
     Inr [(''mean'', Some (-10)), (''median'', Some (-10)), (''std'', Some 0),
          (''min'', Some (-10)), (''max'', Some (-10))]"
  "column_stats (NumSeries [Some (-20), Some (-20)]) =
     Inr [(''mean'', Some (-20)), (''median'', Some (-20)), (''std'', Some 0),
          (''min'', Some (-20)), (''max'', Some (-20))]"
  by (simp_all add: describe_def series_mean_def series_median_def series_std_def
        series_min_def series_max_def dropna_def Let_def)

text \<open>
  C5. Expected values of -10 against actual values of -20: every statistic with a
  non-zero expected value differs by 100 percent of it, yet at the threshold 5 none is
  flagged: the code divides by the expected value, not by its size, and the negative
  quotient never exceeds the threshold.
\<close>

theorem distribution_negative_baseline:
  "distribution_validate 5 negative_expected negative_actual =
     Inr \<lparr>status = Pass, differences = []\<rparr> \<and>
   series_mean [Some (-10), Some (-10)] = Some (-10) \<and>
   series_mean [Some (-20), Some (-20)] = Some (-20) \<and>
   relative_pct_difference (-10) (-20) = 100 \<and>
   stat_entry 5 (Some (-10)) (Some (-20)) = None"
proof -
  have s: "stat_entry 5 (Some (-10)) (Some (-20)) = None" "stat_entry 5 (Some 0) (Some 0) = None"
    by (simp_all add: stat_entry_def fsub_def fabs_def fdiv_def fmul_def fgt_def Let_def)
  have "distribution_validate 5 negative_expected negative_actual =
     Inr \<lparr>status = Pass, differences = []\<rparr>"
    by (simp add: distribution_validate_def distribution_column_def negative_expected_def
          negative_actual_def getitem_def column_names_def bind_err_def negative_stats s
          make_outcome_def del: column_stats.simps)
  moreover have "series_mean [Some (-10), Some (-10)] = Some (-10)"
    "series_mean [Some (-20), Some (-20)] = Some (-20)"
    by (simp_all add: series_mean_def dropna_def Let_def)
  moreover have "relative_pct_difference (-10) (-20) = 100"
    by (simp add: relative_pct_difference_def)
  ultimately show ?thesis using s by simp
qed















end
